theory Spec2Isabelle
  imports Complex_Main "HOL-Library.Word" "HOL-Library.AList"
begin

section \<open>JavaScript values used by the services\<close>

text \<open>
  JavaScript strings are modelled as \<^typ>\<open>string\<close> (lists of 8-bit characters, read as
  code points below 256); an optional parameter (\<open>context?: string\<close>) is a
  \<^typ>\<open>string option\<close>, \<open>None\<close> standing for \<open>undefined\<close>.  A number that is data (of a request, of a
  response of the language model, of a stored vector of the local provider) is finite and
  is modelled by its value, a \<^typ>\<open>real\<close>; a number that the services compute is a
  \<open>number\<close> of the next section; integers that are only counted or compared are
  \<^typ>\<open>int\<close> or \<^typ>\<open>nat\<close>.
\<close>

text \<open>\<open>s || d\<close> on an optional string: \<open>undefined\<close> and the empty string are falsy.\<close>

definition or_else :: "string option \<Rightarrow> string \<Rightarrow> string" where
  "or_else s d = (case s of None \<Rightarrow> d | Some t \<Rightarrow> (if t = [] then d else t))"

section \<open>Numbers\<close>

text \<open>
  The values of JavaScript numbers: the finite ones by their value, the two infinities,
  and NaN.  The two zeros are one value: the services compare a computed zero with
  \<open>=== 0\<close> only, which does not tell them apart.
\<close>

datatype number = Finite real | PosInfinity | NegInfinity | NaN

text \<open>\<open>x === 0\<close>, \<open>x >= y\<close> and \<open>x > 0\<close>; every comparison with NaN is false.\<close>

definition isZero :: "number \<Rightarrow> bool" where
  "isZero x = (x = Finite 0)"

fun number_ge :: "number \<Rightarrow> number \<Rightarrow> bool" where
  "number_ge NaN y = False"
| "number_ge x NaN = False"
| "number_ge PosInfinity y = True"
| "number_ge x NegInfinity = True"
| "number_ge (Finite a) (Finite b) = (b \<le> a)"
| "number_ge (Finite a) PosInfinity = False"
| "number_ge NegInfinity y = False"

fun isPositive :: "number \<Rightarrow> bool" where
  "isPositive (Finite a) = (0 < a)"
| "isPositive PosInfinity = True"
| "isPositive NegInfinity = False"
| "isPositive NaN = False"

text \<open>
  The arithmetic of the runtime is IEEE-754 binary64: every sum, difference, product,
  quotient and square root is rounded, and may overflow to an infinity or be NaN.  The
  operations are not defined here; they are parameters of every function that computes
  with them, and what is proved of such a function is proved for every choice of the
  operations, the ones of the runtime among them.
\<close>

record arith =
  fadd :: "number \<Rightarrow> number \<Rightarrow> number"
  fsub :: "number \<Rightarrow> number \<Rightarrow> number"
  fmul :: "number \<Rightarrow> number \<Rightarrow> number"
  fdiv :: "number \<Rightarrow> number \<Rightarrow> number"
  fsqrt :: "number \<Rightarrow> number"

text \<open>
  \<open>Math.round\<close> is exact: the integer nearest to its argument, the greater one of two
  that are equally near.
\<close>

fun mathRound :: "number \<Rightarrow> number" where
  "mathRound (Finite a) = Finite (of_int \<lfloor>a + 1 / 2\<rfloor>)"
| "mathRound x = x"

text \<open>
  The one property of the arithmetic that a result below depends on: the difference
  \<open>x - y\<close> of two numbers other than NaN is positive exactly when \<open>x > y\<close>.  Binary64
  subtraction has it: the difference of two different finite numbers is never rounded
  to zero, and the difference of two equal infinities is NaN.
\<close>

definition subtractionOrdered :: "arith \<Rightarrow> bool" where
  "subtractionOrdered ar =
     (\<forall>x y. x \<noteq> NaN \<longrightarrow> y \<noteq> NaN \<longrightarrow> isPositive (fsub ar x y) = (\<not> number_ge y x))"

subsection \<open>Arithmetic without rounding\<close>

text \<open>
  The operations of IEEE-754 with the rounding left out: they give the results of the
  runtime wherever the exact result of each step is a binary64 number, as it is for the
  small integers of the examples below.  A quotient by zero is the quotient by the
  positive zero.
\<close>

fun exact_neg :: "number \<Rightarrow> number" where
  "exact_neg (Finite a) = Finite (- a)"
| "exact_neg PosInfinity = NegInfinity"
| "exact_neg NegInfinity = PosInfinity"
| "exact_neg NaN = NaN"

fun exact_add :: "number \<Rightarrow> number \<Rightarrow> number" where
  "exact_add (Finite a) (Finite b) = Finite (a + b)"
| "exact_add NaN y = NaN"
| "exact_add x NaN = NaN"
| "exact_add PosInfinity NegInfinity = NaN"
| "exact_add NegInfinity PosInfinity = NaN"
| "exact_add PosInfinity y = PosInfinity"
| "exact_add x PosInfinity = PosInfinity"
| "exact_add NegInfinity y = NegInfinity"
| "exact_add x NegInfinity = NegInfinity"

definition exact_sub :: "number \<Rightarrow> number \<Rightarrow> number" where
  "exact_sub x y = exact_add x (exact_neg y)"

fun exact_mul :: "number \<Rightarrow> number \<Rightarrow> number" where
  "exact_mul (Finite a) (Finite b) = Finite (a * b)"
| "exact_mul NaN y = NaN"
| "exact_mul x NaN = NaN"
| "exact_mul (Finite a) y = (if a = 0 then NaN else if 0 < a then y else exact_neg y)"
| "exact_mul x (Finite b) = (if b = 0 then NaN else if 0 < b then x else exact_neg x)"
| "exact_mul x y = (if x = y then PosInfinity else NegInfinity)"

fun exact_div :: "number \<Rightarrow> number \<Rightarrow> number" where
  "exact_div (Finite a) (Finite b) =
     (if b = 0 then (if a = 0 then NaN else if 0 < a then PosInfinity else NegInfinity)
      else Finite (a / b))"
| "exact_div NaN y = NaN"
| "exact_div x NaN = NaN"
| "exact_div (Finite a) y = Finite 0"
| "exact_div x (Finite b) = (if 0 \<le> b then x else exact_neg x)"
| "exact_div x y = NaN"

fun exact_sqrt :: "number \<Rightarrow> number" where
  "exact_sqrt (Finite a) = (if a < 0 then NaN else Finite (sqrt a))"
| "exact_sqrt PosInfinity = PosInfinity"
| "exact_sqrt NegInfinity = NaN"
| "exact_sqrt NaN = NaN"

definition exactArith :: arith where
  "exactArith =
     \<lparr>fadd = exact_add, fsub = exact_sub, fmul = exact_mul, fdiv = exact_div, fsqrt = exact_sqrt\<rparr>"

section \<open>Cache keys of the language-model service (services/ollama.ts)\<close>

definition synonymsCacheKey :: "string \<Rightarrow> string option \<Rightarrow> string" where
  "synonymsCacheKey word context = ''synonyms:'' @ word @ '':'' @ or_else context ''default''"

definition antonymsCacheKey :: "string \<Rightarrow> string option \<Rightarrow> string" where
  "antonymsCacheKey word context = ''antonyms:'' @ word @ '':'' @ or_else context ''default''"

definition definitionCacheKey :: "string \<Rightarrow> string option \<Rightarrow> string" where
  "definitionCacheKey word partOfSpeech = ''definition:'' @ word @ '':'' @ or_else partOfSpeech ''any''"

definition analysisCacheKey :: "string \<Rightarrow> string option \<Rightarrow> string" where
  "analysisCacheKey word context = ''analysis:'' @ word @ '':'' @ or_else context ''default''"

section \<open>String primitives of the runtime\<close>

text \<open>
  The characters matched by the regular-expression class \<open>\s\<close> and removed by
  \<open>String.prototype.trim\<close>, among the code points below 256: tab, line feed, vertical
  tab, form feed, carriage return, space and no-break space.
\<close>

definition isSpace :: "char \<Rightarrow> bool" where
  "isSpace c = (of_char c \<in> {9::nat, 10, 11, 12, 13, 32, 160})"

definition isAsciiLetter :: "char \<Rightarrow> bool" where
  "isAsciiLetter c = (let n = (of_char c :: nat) in (65 \<le> n \<and> n \<le> 90) \<or> (97 \<le> n \<and> n \<le> 122))"

definition isLowerLetter :: "char \<Rightarrow> bool" where
  "isLowerLetter c = (let n = (of_char c :: nat) in 97 \<le> n \<and> n \<le> 122)"

text \<open>
  \<open>toLowerCase\<close> on one character: \<open>A\<close>..\<open>Z\<close> and the Latin-1 capitals
  (\<open>0xC0\<close>..\<open>0xDE\<close> without the multiplication sign \<open>0xD7\<close>) move up by 32.
\<close>

definition toLowerChar :: "char \<Rightarrow> char" where
  "toLowerChar c =
     (let n = (of_char c :: nat)
      in if (65 \<le> n \<and> n \<le> 90) \<or> (192 \<le> n \<and> n \<le> 222 \<and> n \<noteq> 215)
         then char_of (n + 32) else c)"

definition toLowerCase :: "string \<Rightarrow> string" where
  "toLowerCase s = map toLowerChar s"

definition trim :: "string \<Rightarrow> string" where
  "trim s = rev (dropWhile isSpace (rev (dropWhile isSpace s)))"

text \<open>
  \<open>s.split(sep)\<close> for a separator that matches single characters: the fields between
  the separators, empty fields included; the empty string gives one empty field.
\<close>

fun splitOn :: "(char \<Rightarrow> bool) \<Rightarrow> string \<Rightarrow> string list" where
  "splitOn P [] = [[]]"
| "splitOn P (c # cs) =
     (if P c then [] # splitOn P cs
      else (case splitOn P cs of [] \<Rightarrow> [[c]] | w # ws \<Rightarrow> (c # w) # ws))"

text \<open>\<open>xs[0]\<close>, the first field of a split (a split is never empty).\<close>

definition firstField :: "string list \<Rightarrow> string" where
  "firstField fs = (case fs of [] \<Rightarrow> [] | f # _ \<Rightarrow> f)"

section \<open>The permissive word parser (services/ollama.ts, fallbackParseWords)\<close>

record related_word =
  word :: string
  confidence :: real

text \<open>\<open>/^[a-zA-Z\s-]+$/.test(w)\<close>: at least one character, all of them in the class.\<close>

definition matchesWordPattern :: "string \<Rightarrow> bool" where
  "matchesWordPattern w =
     (w \<noteq> [] \<and> list_all (\<lambda>c. isAsciiLetter c \<or> isSpace c \<or> c = CHR ''-'') w)"

definition fallbackParseWords :: "string \<Rightarrow> related_word list" where
  "fallbackParseWords response =
     (let words =
        take 10
          (filter (\<lambda>w. w \<noteq> [] \<and> matchesWordPattern w)
             (map trim (splitOn (\<lambda>c. c = CHR '','' \<or> c = CHR 0x0A) response)))
      in map (\<lambda>w. \<lparr>word = toLowerCase w, confidence = 0.6\<rparr>) words)"


section \<open>Errors\<close>

text \<open>
  Every \<open>throw\<close> and every rejected promise of the services is a value of this type; the
  constructors are named after the messages of the source, without the text of the cause
  that the source appends to some of them.
\<close>

datatype error =
    ClientError                      \<comment> \<open>a rejected call of an external client or library\<close>
  | FailedToGenerateEmbedding
  | FailedToFindSynonyms
  | FailedToFindAntonyms
  | FailedToAnalyzeContextualMeaning
  | FailedToGetDefinition
  | FailedToPerformComprehensiveAnalysis
  | FailedToFindSimilarWords
  | VectorsMustHaveTheSameLength
  | Word2VecModelNotLoaded
  | UnsupportedEmbeddingProvider
  | TypeError

section \<open>The local embedding provider (Word2VecService)\<close>

record embedding_result =
  er_model :: string
  er_embedding :: "real list"
  er_dimension :: nat

text \<open>
  The loaded model of the \<open>word2vec\<close> library is its vocabulary table; \<open>getVector\<close>
  calls back with an error for a word that is not in it.
\<close>

type_synonym vocabulary = "string \<rightharpoonup> real list"

record word2vec_service =
  w2v_model :: "vocabulary option"
  isModelLoaded :: bool
  vectorSize :: "nat option"         \<comment> \<open>\<open>config.vectorSize\<close>\<close>

definition modelName :: string where
  "modelName = ''word2vec''"

definition defaultVectorSize :: nat where
  "defaultVectorSize = 300"

text \<open>
  The constructor: the defaults, overridden by the fields of the given configuration
  (the argument is the configuration's \<open>vectorSize\<close>, \<open>None\<close> when it has none).
\<close>

definition new_Word2VecService :: "nat option \<Rightarrow> word2vec_service" where
  "new_Word2VecService cfg =
     \<lparr>w2v_model = None, isModelLoaded = False,
      vectorSize = (case cfg of None \<Rightarrow> Some 300 | Some v \<Rightarrow> Some v)\<rparr>"

text \<open>The exported instance: \<open>new Word2VecService()\<close>.\<close>

definition word2vecService :: word2vec_service where
  "word2vecService = new_Word2VecService None"

definition getVectorSize :: "word2vec_service \<Rightarrow> nat" where
  "getVectorSize s =
     (case vectorSize s of None \<Rightarrow> defaultVectorSize
      | Some v \<Rightarrow> (if v = 0 then defaultVectorSize else v))"

definition isLoaded :: "word2vec_service \<Rightarrow> bool" where
  "isLoaded s = isModelLoaded s"

text \<open>
  \<open>loadPretrainedModel\<close>: the second argument is what the library's \<open>loadModel\<close> calls
  back with for the given path.
\<close>

definition loadPretrainedModel ::
  "word2vec_service \<Rightarrow> error + vocabulary \<Rightarrow> (error + unit) \<times> word2vec_service" where
  "loadPretrainedModel s loaded =
     (case loaded of
        Inl e \<Rightarrow> (Inl e, s)
      | Inr m \<Rightarrow> (Inr (), s\<lparr>w2v_model := Some m, isModelLoaded := True\<rparr>))"

definition w2v_generateEmbedding :: "word2vec_service \<Rightarrow> string \<Rightarrow> error + embedding_result" where
  "w2v_generateEmbedding s text =
     (if \<not> isModelLoaded s then Inl Word2VecModelNotLoaded
      else
        let word = firstField (splitOn (\<lambda>c. c = CHR '' '') (trim (toLowerCase text)))
        in case w2v_model s of
             None \<Rightarrow> Inl TypeError
           | Some m \<Rightarrow>
               (case m word of
                  None \<Rightarrow>
                    Inr \<lparr>er_model = modelName,
                         er_embedding = replicate defaultVectorSize 0,
                         er_dimension = defaultVectorSize\<rparr>
                | Some vector \<Rightarrow>
                    Inr \<lparr>er_model = modelName, er_embedding = vector,
                         er_dimension = length vector\<rparr>))"

text \<open>
  The first whitespace-delimited token of a text, in the words of the specification: the
  characters after the leading whitespace up to the next whitespace character.
\<close>

definition firstWhitespaceToken :: "string \<Rightarrow> string" where
  "firstWhitespaceToken s = takeWhile (\<lambda>c. \<not> isSpace c) (dropWhile isSpace s)"

section \<open>Provider availability (EmbeddingService.isProviderAvailable)\<close>

text \<open>
  The state the availability query could look at: whether the Ollama server answers now
  (what \<open>checkModelAvailability\<close> of the language-model service reports), and the local
  provider.
\<close>

record providers =
  ollama_reachable :: bool
  w2v :: word2vec_service

definition checkModelAvailability :: "providers \<Rightarrow> bool" where
  "checkModelAvailability st = ollama_reachable st"

definition isProviderAvailable :: "providers \<Rightarrow> string \<Rightarrow> bool" where
  "isProviderAvailable st provider =
     (if provider = ''ollama'' then True
      else if provider = ''word2vec'' then isLoaded (w2v st)
      else False)"


section \<open>Values of the services and the cache (utils/cache.ts)\<close>

record contextual_meaning =
  cm_context :: string
  cm_meaning :: string
  cm_domain :: "string option"
  cm_sentiment :: "real option"
  cm_examples :: "string list option"

record word_analysis =
  wa_word :: string
  wa_definition :: string
  wa_partOfSpeech :: string
  wa_synonyms :: "related_word list"
  wa_antonyms :: "related_word list"
  wa_contexts :: "contextual_meaning list"
  wa_confidence :: number

record semantic_search_result =
  sr_word :: string
  similarity :: number
  sr_definition :: "string option"
  sr_partOfSpeech :: "string option"

text \<open>The values the services put into the cache.\<close>

datatype cache_value =
    CWords "related_word list"
  | CContexts "contextual_meaning list"
  | CString string
  | CAnalysis word_analysis
  | CEmbedding embedding_result
  | CSearch "semantic_search_result list"

text \<open>
  The cache service wraps the \<open>node-cache\<close> store.  The store is modelled by its entries in
  insertion order, each with the time-to-live it was written with; a request is served
  at one instant, and the entries are the ones the store holds at that instant.  The
  store's capacity bound and expiry sweep are outside the model.
\<close>

record cache_service =
  entries :: "(string \<times> cache_value \<times> nat) list"
  defaultTTL :: nat

text \<open>\<open>set(key, value, ttl)\<close> stores with \<open>ttl || this.defaultTTL\<close>.\<close>

definition cache_set :: "cache_service \<Rightarrow> string \<Rightarrow> cache_value \<Rightarrow> nat \<Rightarrow> cache_service" where
  "cache_set c key v ttl =
     c\<lparr>entries := AList.update key (v, if ttl = 0 then defaultTTL c else ttl) (entries c)\<rparr>"

definition cache_get :: "cache_service \<Rightarrow> string \<Rightarrow> cache_value option" where
  "cache_get c key = map_option fst (map_of (entries c) key)"

text \<open>The time-to-live, in seconds, that the entry of a key was written with.\<close>

definition entryTTL :: "cache_service \<Rightarrow> string \<Rightarrow> nat option" where
  "entryTTL c key = map_option snd (map_of (entries c) key)"

definition keys :: "cache_service \<Rightarrow> string list" where
  "keys c = map fst (entries c)"

subsection \<open>Approximate key lookup\<close>







text \<open>
  The Levenshtein edit distance between the first \<open>i\<close> characters of \<open>s\<close> and the first
  \<open>j\<close> characters of \<open>t\<close>, by its defining recurrence (deletion, insertion,
  substitution), and the similarity of the specification built on it.
\<close>

fun editDistance :: "'a list \<Rightarrow> 'a list \<Rightarrow> nat \<Rightarrow> nat \<Rightarrow> nat" where
  "editDistance s t 0 j = j"
| "editDistance s t (Suc i) 0 = Suc i"
| "editDistance s t (Suc i) (Suc j) =
     min (editDistance s t i (Suc j) + 1)
       (min (editDistance s t (Suc i) j + 1)
          (editDistance s t i j + (if s ! i = t ! j then 0 else 1)))"





subsection \<open>The matrix loops: shape and progress of the fill\<close>




section \<open>The similarity search (services/embedding.ts)\<close>

text \<open>
  A row of the \<open>wordEmbedding\<close> table, loaded with the word it belongs to.
\<close>

record word_row =
  w_word :: string
  w_definition :: "string option"
  w_partOfSpeech :: "string option"

record word_embedding =
  we_wordId :: nat
  we_model :: string
  we_embedding :: "number list"
  we_word :: word_row

definition calculateCosineSimilarity :: "arith \<Rightarrow> number list \<Rightarrow> number list \<Rightarrow> error + number" where
  "calculateCosineSimilarity ar vecA vecB =
     (if length vecA \<noteq> length vecB then Inl VectorsMustHaveTheSameLength
      else
        let (dotProduct, normA, normB) =
              fold (\<lambda>i (dotProduct, normA, normB).
                      (fadd ar dotProduct (fmul ar (vecA ! i) (vecB ! i)),
                       fadd ar normA (fmul ar (vecA ! i) (vecA ! i)),
                       fadd ar normB (fmul ar (vecB ! i) (vecB ! i))))
                [0..<length vecA] (Finite 0, Finite 0, Finite 0);
            normA = fsqrt ar normA;
            normB = fsqrt ar normB
        in if isZero normA \<or> isZero normB then Inr (Finite 0)
           else Inr (fdiv ar dotProduct (fmul ar normA normB)))"

text \<open>\<open>xs.map(f)\<close> for a callback that may throw: the first exception ends the map.\<close>

fun mapE :: "('a \<Rightarrow> error + 'b) \<Rightarrow> 'a list \<Rightarrow> error + 'b list" where
  "mapE f [] = Inr []"
| "mapE f (x # xs) =
     (case f x of
        Inl e \<Rightarrow> Inl e
      | Inr y \<Rightarrow> (case mapE f xs of Inl e \<Rightarrow> Inl e | Inr ys \<Rightarrow> Inr (y # ys)))"

text \<open>
  \<open>xs.sort(cmp)\<close>: the sort of the runtime is stable, and an element goes after
  another when the comparator is positive; when it is negative, zero or NaN (which the
  sort reads as zero) the element goes before the other, so elements that compare as
  equal keep their order.
\<close>

fun insertBy :: "('a \<Rightarrow> 'a \<Rightarrow> number) \<Rightarrow> 'a \<Rightarrow> 'a list \<Rightarrow> 'a list" where
  "insertBy cmp x [] = [x]"
| "insertBy cmp x (y # ys) = (if isPositive (cmp x y) then y # insertBy cmp x ys else x # y # ys)"

definition sortBy :: "('a \<Rightarrow> 'a \<Rightarrow> number) \<Rightarrow> 'a list \<Rightarrow> 'a list" where
  "sortBy cmp xs = foldr (insertBy cmp) xs []"

text \<open>
  \<open>xs.slice(0, end)\<close> for an integer \<open>end\<close>: a negative \<open>end\<close> counts from the end of
  the list.
\<close>

definition slice0 :: "'a list \<Rightarrow> int \<Rightarrow> 'a list" where
  "slice0 xs end = (if end < 0 then take (nat (int (length xs) + end)) xs else take (nat end) xs)"

text \<open>
  The database: the rows of the embedding table in the order in which the database
  returns them (\<open>None\<close> when the read of the table is rejected), and the answer of the
  native (\<open>pgvector\<close>) similarity query to a query vector, model, threshold and limit
  (\<open>None\<close> is a query that throws).
\<close>

record database =
  storedEmbeddings :: "word_embedding list option"
  queryRaw :: "real list \<Rightarrow> string \<Rightarrow> real \<Rightarrow> int \<Rightarrow> semantic_search_result list option"

text \<open>\<open>await prisma.wordEmbedding.findMany({where: {model}, take: 1000})\<close>.\<close>

definition findMany :: "database \<Rightarrow> string \<Rightarrow> error + word_embedding list" where
  "findMany d m =
     (case storedEmbeddings d of
        None \<Rightarrow> Inl ClientError
      | Some table \<Rightarrow> Inr (take 1000 (filter (\<lambda>e. we_model e = m) table)))"

definition fallbackSimilaritySearch ::
  "arith \<Rightarrow> database \<Rightarrow> number list \<Rightarrow> string \<Rightarrow> int \<Rightarrow> number \<Rightarrow>
   error + semantic_search_result list" where
  "fallbackSimilaritySearch ar d queryEmbedding m limit threshold =
     (case findMany d m of
        Inl e \<Rightarrow> Inl e
      | Inr embeddings \<Rightarrow>
          (case mapE (\<lambda>embedding.
                  case calculateCosineSimilarity ar queryEmbedding (we_embedding embedding) of
                    Inl e \<Rightarrow> Inl e
                  | Inr sim \<Rightarrow>
                      Inr \<lparr>sr_word = w_word (we_word embedding),
                           similarity = sim,
                           sr_definition = w_definition (we_word embedding),
                           sr_partOfSpeech = w_partOfSpeech (we_word embedding)\<rparr>)
                embeddings of
             Inl e \<Rightarrow> Inl e
           | Inr results \<Rightarrow>
               Inr (slice0
                      (sortBy (\<lambda>a b. fsub ar (similarity b) (similarity a))
                         (filter (\<lambda>result. number_ge (similarity result) threshold) results))
                      limit)))"

subsection \<open>The reference pipeline of the specification\<close>

text \<open>
  Cosine similarity as the specification defines it, in the arithmetic of the runtime:
  the dot product over the product of the norms, and 0 when a norm is 0.
\<close>

definition innerProduct :: "arith \<Rightarrow> number list \<Rightarrow> number list \<Rightarrow> number" where
  "innerProduct ar a b = foldl (\<lambda>s (x, y). fadd ar s (fmul ar x y)) (Finite 0) (zip a b)"

definition vectorNorm :: "arith \<Rightarrow> number list \<Rightarrow> number" where
  "vectorNorm ar a = fsqrt ar (innerProduct ar a a)"

definition cosine :: "arith \<Rightarrow> number list \<Rightarrow> number list \<Rightarrow> number" where
  "cosine ar a b =
     (if isZero (vectorNorm ar a) \<or> isZero (vectorNorm ar b) then Finite 0
      else fdiv ar (innerProduct ar a b) (fmul ar (vectorNorm ar a) (vectorNorm ar b)))"

definition scored :: "arith \<Rightarrow> number list \<Rightarrow> word_embedding \<Rightarrow> semantic_search_result" where
  "scored ar q e =
     \<lparr>sr_word = w_word (we_word e), similarity = cosine ar q (we_embedding e),
      sr_definition = w_definition (we_word e), sr_partOfSpeech = w_partOfSpeech (we_word e)\<rparr>"

text \<open>
  Sorting in descending order of similarity: an element is put before the first one
  that it is greater than or equal to.
\<close>

fun insertDescending ::
  "semantic_search_result \<Rightarrow> semantic_search_result list \<Rightarrow> semantic_search_result list" where
  "insertDescending x [] = [x]"
| "insertDescending x (y # ys) =
     (if number_ge (similarity x) (similarity y) then x # y # ys else y # insertDescending x ys)"

definition sortDescending :: "semantic_search_result list \<Rightarrow> semantic_search_result list" where
  "sortDescending xs = foldr insertDescending xs []"

text \<open>
  The stored vectors of the model, at most 1000 of them; their similarities; those at or
  above the threshold; in descending order of similarity.
\<close>

definition referenceRanking ::
  "arith \<Rightarrow> word_embedding list \<Rightarrow> number list \<Rightarrow> string \<Rightarrow> number \<Rightarrow>
   semantic_search_result list" where
  "referenceRanking ar table q m threshold =
     sortDescending
       (filter (\<lambda>r. number_ge (similarity r) threshold)
          (map (scored ar q) (take 1000 (filter (\<lambda>e. we_model e = m) table))))"

text \<open>The ranking, truncated to at most \<open>limit\<close> elements.\<close>

definition referencePipeline ::
  "arith \<Rightarrow> word_embedding list \<Rightarrow> number list \<Rightarrow> string \<Rightarrow> nat \<Rightarrow> number \<Rightarrow>
   semantic_search_result list" where
  "referencePipeline ar table q m limit threshold =
     take limit (referenceRanking ar table q m threshold)"

section \<open>The language-model service (services/ollama.ts)\<close>

subsection \<open>The external client\<close>

text \<open>
  The prompt templates are represented by their instantiations.  A template that takes
  an optional context or part of speech adds its clause only for a truthy value, so an
  empty string gives the same prompt as an absent one.
\<close>

datatype prompt =
    SynonymPrompt string "string option"
  | AntonymPrompt string "string option"
  | ContextAnalysisPrompt string string
  | DefinitionPrompt string "string option"

definition truthy :: "string option \<Rightarrow> string option" where
  "truthy s = (case s of None \<Rightarrow> None | Some t \<Rightarrow> (if t = [] then None else Some t))"

definition buildSynonymPrompt :: "string \<Rightarrow> string option \<Rightarrow> prompt" where
  "buildSynonymPrompt w context = SynonymPrompt w (truthy context)"

definition buildAntonymPrompt :: "string \<Rightarrow> string option \<Rightarrow> prompt" where
  "buildAntonymPrompt w context = AntonymPrompt w (truthy context)"

definition buildContextAnalysisPrompt :: "string \<Rightarrow> string \<Rightarrow> prompt" where
  "buildContextAnalysisPrompt w context = ContextAnalysisPrompt w context"

definition buildDefinitionPrompt :: "string \<Rightarrow> string option \<Rightarrow> prompt" where
  "buildDefinitionPrompt w partOfSpeech = DefinitionPrompt w (truthy partOfSpeech)"

text \<open>
  What the service calls and does not define: the Ollama client (\<open>generate\<close> and
  \<open>embeddings\<close>, by model; \<open>None\<close> is a rejected call) and the structured reading of a
  response (the bracketed part of the response, parsed as JSON and mapped to the result
  type; \<open>None\<close> when the response has no bracketed part or the parse throws).
\<close>

record ollama_client =
  generate :: "string \<Rightarrow> prompt \<Rightarrow> string option"
  embeddings :: "string \<Rightarrow> string \<Rightarrow> real list option"
  parseJsonWords :: "string \<Rightarrow> related_word list option"
  parseJsonContexts :: "string \<Rightarrow> contextual_meaning list option"

record ollama_service =
  languageModel :: string
  embeddingModel :: string

subsection \<open>Parsing the responses\<close>

definition parseSynonyms :: "ollama_client \<Rightarrow> string \<Rightarrow> related_word list" where
  "parseSynonyms env response =
     (case parseJsonWords env response of
        Some parsed \<Rightarrow> parsed
      | None \<Rightarrow> fallbackParseWords response)"

definition parseAntonyms :: "ollama_client \<Rightarrow> string \<Rightarrow> related_word list" where
  "parseAntonyms env response = parseSynonyms env response"

definition parseContextualMeaning :: "ollama_client \<Rightarrow> string \<Rightarrow> contextual_meaning list" where
  "parseContextualMeaning env response =
     (case parseJsonContexts env response of Some parsed \<Rightarrow> parsed | None \<Rightarrow> [])"

text \<open>\<open>response.trim().replace(/^Definition:\s*/i, '').split('\n')[0]\<close>\<close>

definition parseDefinition :: "string \<Rightarrow> string" where
  "parseDefinition response =
     (let t = trim response;
          r = (if map toLowerChar (take 11 t) = ''definition:''
               then dropWhile isSpace (drop 11 t) else t)
      in firstField (splitOn (\<lambda>c. c = CHR 0x0A) r))"

text \<open>
  \<open>extractPartOfSpeech\<close>: the leftmost match of
  \<open>/\b(noun|verb|adjective|adverb|preposition|conjunction|interjection)\b/i\<close>, in lower case.
\<close>

definition isWordChar :: "char \<Rightarrow> bool" where
  "isWordChar c =
     (let n = (of_char c :: nat) in isAsciiLetter c \<or> (48 \<le> n \<and> n \<le> 57) \<or> n = 95)"

definition posWords :: "string list" where
  "posWords = [''noun'', ''verb'', ''adjective'', ''adverb'', ''preposition'', ''conjunction'',
               ''interjection'']"

definition matchesAt :: "string \<Rightarrow> string \<Rightarrow> bool" where
  "matchesAt k s =
     (map toLowerChar (take (length k) s) = k \<and>
      (case drop (length k) s of [] \<Rightarrow> True | c # _ \<Rightarrow> \<not> isWordChar c))"

fun scanPartOfSpeech :: "bool \<Rightarrow> string \<Rightarrow> string" where
  "scanPartOfSpeech afterWordChar [] = ''unknown''"
| "scanPartOfSpeech afterWordChar (c # cs) =
     (if afterWordChar then scanPartOfSpeech (isWordChar c) cs
      else (case find (\<lambda>k. matchesAt k (c # cs)) posWords of
              Some k \<Rightarrow> k
            | None \<Rightarrow> scanPartOfSpeech (isWordChar c) cs))"

definition extractPartOfSpeech :: "string \<Rightarrow> string" where
  "extractPartOfSpeech d = scanPartOfSpeech False d"

text \<open>
  \<open>allWords.reduce((sum, word) => sum + word.confidence, 0) / allWords.length\<close>, then
  \<open>Math.round(avgConfidence * 100) / 100\<close>.
\<close>

definition calculateOverallConfidence ::
  "arith \<Rightarrow> related_word list \<Rightarrow> related_word list \<Rightarrow> number" where
  "calculateOverallConfidence ar syns ants =
     (let allWords = syns @ ants
      in if length allWords = 0 then Finite 0
         else
           let avgConfidence =
                 fdiv ar (foldl (\<lambda>sum w. fadd ar sum (Finite (confidence w))) (Finite 0) allWords)
                   (Finite (real (length allWords)))
           in fdiv ar (mathRound (fmul ar avgConfidence (Finite 100))) (Finite 100))"

text \<open>
  \<open>hashString\<close>: \<open>hash << 5\<close> and \<open>hash & hash\<close> work on 32-bit integers, so the
  loop is arithmetic on 32-bit words; the result is the absolute value of the signed
  reading, in base 36.
\<close>

definition digit36 :: "nat \<Rightarrow> char" where
  "digit36 d = ''0123456789abcdefghijklmnopqrstuvwxyz'' ! d"

fun toBase36 :: "nat \<Rightarrow> string" where
  "toBase36 n = (if n < 36 then [digit36 n] else toBase36 (n div 36) @ [digit36 (n mod 36)])"

definition hashString :: "string \<Rightarrow> string" where
  "hashString str =
     (let hash = foldl (\<lambda>(hash :: 32 word) c. (push_bit 5 hash - hash) + of_nat (of_char c)) 0 str
      in toBase36 (nat \<bar>sint hash\<bar>))"

definition contextCacheKey :: "string \<Rightarrow> string \<Rightarrow> string" where
  "contextCacheKey w context = ''context:'' @ w @ '':'' @ hashString context"

definition embeddingCacheKey :: "string \<Rightarrow> string \<Rightarrow> string" where
  "embeddingCacheKey m text = ''embedding:'' @ m @ '':'' @ text"

subsection \<open>Reading the cache\<close>

text \<open>
  \<open>const cached = cache.get<T>(key); if (cached) return cached\<close>: a list or an object
  is truthy, the empty string is not.  The keys of the different operations start with
  different words, so a key holds values of its operation only; a value of another shape
  reads as a miss.
\<close>

definition cachedWords :: "cache_service \<Rightarrow> string \<Rightarrow> related_word list option" where
  "cachedWords c key = (case cache_get c key of Some (CWords ws) \<Rightarrow> Some ws | _ \<Rightarrow> None)"

definition cachedContexts :: "cache_service \<Rightarrow> string \<Rightarrow> contextual_meaning list option" where
  "cachedContexts c key = (case cache_get c key of Some (CContexts cs) \<Rightarrow> Some cs | _ \<Rightarrow> None)"

definition cachedString :: "cache_service \<Rightarrow> string \<Rightarrow> string option" where
  "cachedString c key =
     (case cache_get c key of Some (CString s) \<Rightarrow> (if s = [] then None else Some s) | _ \<Rightarrow> None)"

definition cachedAnalysis :: "cache_service \<Rightarrow> string \<Rightarrow> word_analysis option" where
  "cachedAnalysis c key = (case cache_get c key of Some (CAnalysis a) \<Rightarrow> Some a | _ \<Rightarrow> None)"

definition cachedEmbedding :: "cache_service \<Rightarrow> string \<Rightarrow> embedding_result option" where
  "cachedEmbedding c key = (case cache_get c key of Some (CEmbedding e) \<Rightarrow> Some e | _ \<Rightarrow> None)"

definition cachedSearch :: "cache_service \<Rightarrow> string \<Rightarrow> semantic_search_result list option" where
  "cachedSearch c key = (case cache_get c key of Some (CSearch rs) \<Rightarrow> Some rs | _ \<Rightarrow> None)"

subsection \<open>The operations\<close>

text \<open>Each operation returns its result or error, and the cache after it.\<close>

definition ollama_generateEmbedding ::
  "ollama_service \<Rightarrow> ollama_client \<Rightarrow> cache_service \<Rightarrow> string \<Rightarrow>
   (error + embedding_result) \<times> cache_service" where
  "ollama_generateEmbedding svc env c text =
     (let cacheKey = embeddingCacheKey (embeddingModel svc) text
      in case cachedEmbedding c cacheKey of
           Some cached \<Rightarrow> (Inr cached, c)
         | None \<Rightarrow>
             (case embeddings env (embeddingModel svc) text of
                None \<Rightarrow> (Inl FailedToGenerateEmbedding, c)
              | Some embedding \<Rightarrow>
                  let result = \<lparr>er_model = embeddingModel svc, er_embedding = embedding,
                                er_dimension = length embedding\<rparr>
                  in (Inr result, cache_set c cacheKey (CEmbedding result) 3600)))"

definition findSynonyms ::
  "ollama_service \<Rightarrow> ollama_client \<Rightarrow> cache_service \<Rightarrow> string \<Rightarrow> string option \<Rightarrow>
   (error + related_word list) \<times> cache_service" where
  "findSynonyms svc env c w context =
     (let prompt = buildSynonymPrompt w context;
          cacheKey = synonymsCacheKey w context
      in case cachedWords c cacheKey of
           Some cached \<Rightarrow> (Inr cached, c)
         | None \<Rightarrow>
             (case generate env (languageModel svc) prompt of
                None \<Rightarrow> (Inl FailedToFindSynonyms, c)
              | Some response \<Rightarrow>
                  let synonyms = parseSynonyms env response
                  in (Inr synonyms, cache_set c cacheKey (CWords synonyms) 1800)))"

definition findAntonyms ::
  "ollama_service \<Rightarrow> ollama_client \<Rightarrow> cache_service \<Rightarrow> string \<Rightarrow> string option \<Rightarrow>
   (error + related_word list) \<times> cache_service" where
  "findAntonyms svc env c w context =
     (let prompt = buildAntonymPrompt w context;
          cacheKey = antonymsCacheKey w context
      in case cachedWords c cacheKey of
           Some cached \<Rightarrow> (Inr cached, c)
         | None \<Rightarrow>
             (case generate env (languageModel svc) prompt of
                None \<Rightarrow> (Inl FailedToFindAntonyms, c)
              | Some response \<Rightarrow>
                  let antonyms = parseAntonyms env response
                  in (Inr antonyms, cache_set c cacheKey (CWords antonyms) 1800)))"

definition analyzeContextualMeaning ::
  "ollama_service \<Rightarrow> ollama_client \<Rightarrow> cache_service \<Rightarrow> string \<Rightarrow> string \<Rightarrow>
   (error + contextual_meaning list) \<times> cache_service" where
  "analyzeContextualMeaning svc env c w context =
     (let prompt = buildContextAnalysisPrompt w context;
          cacheKey = contextCacheKey w context
      in case cachedContexts c cacheKey of
           Some cached \<Rightarrow> (Inr cached, c)
         | None \<Rightarrow>
             (case generate env (languageModel svc) prompt of
                None \<Rightarrow> (Inl FailedToAnalyzeContextualMeaning, c)
              | Some response \<Rightarrow>
                  let contextualMeanings = parseContextualMeaning env response
                  in (Inr contextualMeanings,
                      cache_set c cacheKey (CContexts contextualMeanings) 2400)))"

definition getDefinition ::
  "ollama_service \<Rightarrow> ollama_client \<Rightarrow> cache_service \<Rightarrow> string \<Rightarrow> string option \<Rightarrow>
   (error + string) \<times> cache_service" where
  "getDefinition svc env c w partOfSpeech =
     (let prompt = buildDefinitionPrompt w partOfSpeech;
          cacheKey = definitionCacheKey w partOfSpeech
      in case cachedString c cacheKey of
           Some cached \<Rightarrow> (Inr cached, c)
         | None \<Rightarrow>
             (case generate env (languageModel svc) prompt of
                None \<Rightarrow> (Inl FailedToGetDefinition, c)
              | Some response \<Rightarrow>
                  let definition = parseDefinition response
                  in (Inr definition, cache_set c cacheKey (CString definition) 7200)))"

text \<open>
  \<open>performComprehensiveAnalysis\<close>: the four operations are started together and joined
  by \<open>Promise.all\<close>, which rejects as soon as one of them rejects; the \<open>catch\<close> turns
  the rejection into the one error of the analysis.  Every operation that was started
  runs to its end and writes its own cache entry; the entries have different keys, so the
  cache after the join is the one that running them one after the other leaves.
\<close>

definition performComprehensiveAnalysis ::
  "arith \<Rightarrow> ollama_service \<Rightarrow> ollama_client \<Rightarrow> cache_service \<Rightarrow> string \<Rightarrow> string option \<Rightarrow>
   (error + word_analysis) \<times> cache_service" where
  "performComprehensiveAnalysis ar svc env c w context =
     (let cacheKey = analysisCacheKey w context
      in case cachedAnalysis c cacheKey of
           Some cached \<Rightarrow> (Inr cached, c)
         | None \<Rightarrow>
             let (r1, c1) = findSynonyms svc env c w context;
                 (r2, c2) = findAntonyms svc env c1 w context;
                 (r3, c3) = getDefinition svc env c2 w None;
                 (r4, c4) = (case truthy context of
                               Some ctx \<Rightarrow> analyzeContextualMeaning svc env c3 w ctx
                             | None \<Rightarrow> (Inr [], c3))
             in case (r1, r2, r3, r4) of
                  (Inr synonyms, Inr antonyms, Inr definition, Inr contextualMeanings) \<Rightarrow>
                    let analysis =
                          \<lparr>wa_word = w,
                           wa_definition = definition,
                           wa_partOfSpeech = extractPartOfSpeech definition,
                           wa_synonyms = synonyms,
                           wa_antonyms = antonyms,
                           wa_contexts = contextualMeanings,
                           wa_confidence = calculateOverallConfidence ar synonyms antonyms\<rparr>
                    in (Inr analysis, cache_set c4 cacheKey (CAnalysis analysis) 1800)
                | _ \<Rightarrow> (Inl FailedToPerformComprehensiveAnalysis, c4))"


text \<open>The join of the four results: the analysis, or its one error.\<close>

definition joined ::
  "arith \<Rightarrow> string \<Rightarrow> error + related_word list \<Rightarrow> error + related_word list \<Rightarrow> error + string \<Rightarrow>
   error + contextual_meaning list \<Rightarrow> error + word_analysis" where
  "joined ar w r1 r2 r3 r4 =
     (case (r1, r2, r3, r4) of
        (Inr synonyms, Inr antonyms, Inr definition, Inr contextualMeanings) \<Rightarrow>
          Inr \<lparr>wa_word = w,
               wa_definition = definition,
               wa_partOfSpeech = extractPartOfSpeech definition,
               wa_synonyms = synonyms,
               wa_antonyms = antonyms,
               wa_contexts = contextualMeanings,
               wa_confidence = calculateOverallConfidence ar synonyms antonyms\<rparr>
      | _ \<Rightarrow> Inl FailedToPerformComprehensiveAnalysis)"

section \<open>The embedding service: searching similar words\<close>

text \<open>
  \<open>findSimilarEmbeddings\<close>: the native query, and the brute-force search when the
  native query throws.  The query vector and the threshold are data of the request.
\<close>

definition findSimilarEmbeddings ::
  "arith \<Rightarrow> database \<Rightarrow> real list \<Rightarrow> string \<Rightarrow> int \<Rightarrow> real \<Rightarrow>
   error + semantic_search_result list" where
  "findSimilarEmbeddings ar d queryEmbedding m limit threshold =
     (case queryRaw d queryEmbedding m threshold limit of
        Some results \<Rightarrow>
          Inr (map (\<lambda>row. \<lparr>sr_word = sr_word row, similarity = similarity row,
                             sr_definition = sr_definition row,
                             sr_partOfSpeech = sr_partOfSpeech row\<rparr>) results)
      | None \<Rightarrow>
          fallbackSimilaritySearch ar d (map Finite queryEmbedding) m limit (Finite threshold))"

text \<open>
  What the embedding service works with: the arithmetic of the runtime, the conversion
  of a number to its text in a template string (\<open>Number.prototype.toString\<close> of the
  runtime), the language-model service and its client, the local provider, and the
  database.
\<close>

record embedding_deps =
  arithmetic :: arith
  numberToString :: "real \<Rightarrow> string"
  ollama :: ollama_service
  client :: ollama_client
  local_provider :: word2vec_service
  db :: database

subsection \<open>The service with one provider (services/embedding.ts)\<close>

definition basicSearchCacheKey :: "(real \<Rightarrow> string) \<Rightarrow> string \<Rightarrow> int \<Rightarrow> real \<Rightarrow> string" where
  "basicSearchCacheKey toStr queryText limit threshold =
     ''semantic_search:'' @ queryText @ '':'' @ toStr (of_int limit) @ '':'' @ toStr threshold"

definition basic_findSimilarWords ::
  "embedding_deps \<Rightarrow> cache_service \<Rightarrow> string \<Rightarrow> int \<Rightarrow> real \<Rightarrow>
   (error + semantic_search_result list) \<times> cache_service" where
  "basic_findSimilarWords E c queryText limit threshold =
     (let cacheKey = basicSearchCacheKey (numberToString E) queryText limit threshold
      in case cachedSearch c cacheKey of
           Some cached \<Rightarrow> (Inr cached, c)
         | None \<Rightarrow>
             (case ollama_generateEmbedding (ollama E) (client E) c queryText of
                (Inl e, c1) \<Rightarrow> (Inl FailedToFindSimilarWords, c1)
              | (Inr queryEmbedding, c1) \<Rightarrow>
                  (case findSimilarEmbeddings (arithmetic E) (db E) (er_embedding queryEmbedding)
                          (er_model queryEmbedding) limit threshold of
                     Inl e \<Rightarrow> (Inl FailedToFindSimilarWords, c1)
                   | Inr similarWords \<Rightarrow>
                       (Inr similarWords, cache_set c1 cacheKey (CSearch similarWords) 1800))))"

subsection \<open>The service with a provider per call (EmbeddingOptions)\<close>

record embedding_options =
  provider :: string
  eo_model :: "string option"

text \<open>
  \<open>generateEmbedding(text, options)\<close>.  The model of the options is handed to the
  language-model service as a second argument, which its \<open>generateEmbedding(text)\<close>
  does not read.
\<close>

definition es_generateEmbedding ::
  "embedding_deps \<Rightarrow> cache_service \<Rightarrow> string \<Rightarrow> embedding_options \<Rightarrow>
   (error + embedding_result) \<times> cache_service" where
  "es_generateEmbedding E c text options =
     (if provider options = ''ollama'' then ollama_generateEmbedding (ollama E) (client E) c text
      else if provider options = ''word2vec'' then
        (if \<not> isLoaded (local_provider E) then (Inl Word2VecModelNotLoaded, c)
         else (w2v_generateEmbedding (local_provider E) text, c))
      else (Inl UnsupportedEmbeddingProvider, c))"

definition searchCacheKey ::
  "(real \<Rightarrow> string) \<Rightarrow> string \<Rightarrow> int \<Rightarrow> real \<Rightarrow> embedding_options \<Rightarrow> string" where
  "searchCacheKey toStr queryText limit threshold options =
     ''semantic_search:'' @ queryText @ '':'' @ toStr (of_int limit) @ '':'' @ toStr threshold
       @ '':'' @ provider options @ '':'' @ or_else (eo_model options) ''default''"

definition findSimilarWords ::
  "embedding_deps \<Rightarrow> cache_service \<Rightarrow> string \<Rightarrow> int \<Rightarrow> real \<Rightarrow> embedding_options \<Rightarrow>
   (error + semantic_search_result list) \<times> cache_service" where
  "findSimilarWords E c queryText limit threshold options =
     (let cacheKey = searchCacheKey (numberToString E) queryText limit threshold options
      in case cachedSearch c cacheKey of
           Some cached \<Rightarrow> (Inr cached, c)
         | None \<Rightarrow>
             (case es_generateEmbedding E c queryText options of
                (Inl e, c1) \<Rightarrow> (Inl FailedToFindSimilarWords, c1)
              | (Inr queryEmbedding, c1) \<Rightarrow>
                  (case findSimilarEmbeddings (arithmetic E) (db E) (er_embedding queryEmbedding)
                          (er_model queryEmbedding) limit threshold of
                     Inl e \<Rightarrow> (Inl FailedToFindSimilarWords, c1)
                   | Inr similarWords \<Rightarrow>
                       (Inr similarWords, cache_set c1 cacheKey (CSearch similarWords) 1800))))"


subsection \<open>A small configuration\<close>

text \<open>
  One stored vector, a client that embeds every text as \<open>[1, 0]\<close>, a native query that
  throws, the arithmetic without rounding (exact on these vectors), and the texts of the
  numbers 10 and 0.7; used to run the definitions.
\<close>

definition demo_deps :: "string \<Rightarrow> embedding_deps" where
  "demo_deps m =
     \<lparr>arithmetic = exactArith,
      numberToString = (\<lambda>x. if x = 10 then ''10'' else if x = 7 / 10 then ''0.7'' else ''?''),
      ollama = \<lparr>languageModel = ''qwen2.5:14b'', embeddingModel = m\<rparr>,
      client = \<lparr>generate = (\<lambda>m p. None), embeddings = (\<lambda>m t. Some [1, 0]),
                parseJsonWords = (\<lambda>r. None), parseJsonContexts = (\<lambda>r. None)\<rparr>,
      local_provider = word2vecService,
      db = \<lparr>storedEmbeddings =
              Some [\<lparr>we_wordId = 1, we_model = m, we_embedding = [Finite 1, Finite 0],
                     we_word = \<lparr>w_word = ''glad'', w_definition = None, w_partOfSpeech = None\<rparr>\<rparr>],
            queryRaw = (\<lambda>v m t l. None)\<rparr>\<rparr>"

definition empty_cache :: cache_service where
  "empty_cache = \<lparr>entries = [], defaultTTL = 3600\<rparr>"

section \<open>Absent context and the default token\<close>

text \<open>
  Claim C6 as stated: for every word, the key built without a context differs from the key
  built with the explicit context \<open>default\<close>.  The key builders substitute the token
  \<open>default\<close> for an absent (or empty) context, so the two keys coincide.
\<close>

theorem C6_counterexample:
  "synonymsCacheKey ''happy'' None = synonymsCacheKey ''happy'' (Some ''default'')"
  by (simp add: synonymsCacheKey_def or_else_def)

text \<open>
  Claim C6, amended: for every word, the synonym, antonym and analysis keys built without a
  context are equal to the keys built with the explicit context \<open>default\<close> (and with the
  empty context); every other explicit context gives a key different from the no-context
  key.
\<close>

theorem C6_absent_context_is_default_token:
  "synonymsCacheKey w None = synonymsCacheKey w (Some ''default'') \<and>
   antonymsCacheKey w None = antonymsCacheKey w (Some ''default'') \<and>
   analysisCacheKey w None = analysisCacheKey w (Some ''default'') \<and>
   synonymsCacheKey w None = synonymsCacheKey w (Some '''') \<and>
   antonymsCacheKey w None = antonymsCacheKey w (Some '''') \<and>
   analysisCacheKey w None = analysisCacheKey w (Some '''') \<and>
   (c \<noteq> '''' \<and> c \<noteq> ''default'' \<longrightarrow>
      synonymsCacheKey w (Some c) \<noteq> synonymsCacheKey w None \<and>
      antonymsCacheKey w (Some c) \<noteq> antonymsCacheKey w None \<and>
      analysisCacheKey w (Some c) \<noteq> analysisCacheKey w None)"
  by (simp add: synonymsCacheKey_def antonymsCacheKey_def analysisCacheKey_def or_else_def)

theorem C6_absent_context_is_default_token_witness:
  "''formal'' \<noteq> '''' \<and> ''formal'' \<noteq> ''default'' \<and>
   synonymsCacheKey ''happy'' (Some ''formal'') \<noteq> synonymsCacheKey ''happy'' None \<and>
   synonymsCacheKey ''happy'' None = ''synonyms:happy:default''"
  using C6_absent_context_is_default_token [of "''happy''" "''formal''"]
  by (simp add: synonymsCacheKey_def or_else_def)

section \<open>The permissive word parser: what it returns\<close>

lemma toLowerChar_letter: "isAsciiLetter c \<Longrightarrow> isLowerLetter (toLowerChar c)"
  by (auto simp: isAsciiLetter_def isLowerLetter_def toLowerChar_def Let_def)

lemma toLowerChar_space: "isSpace c \<Longrightarrow> toLowerChar c = c"
  by (auto simp: isSpace_def toLowerChar_def Let_def)

lemma toLowerChar_hyphen: "toLowerChar (CHR ''-'') = CHR ''-''"
  by (simp add: toLowerChar_def)

lemma fallbackParseWords_entry:
  assumes "e \<in> set (fallbackParseWords r)"
  shows "word e \<noteq> [] \<and> confidence e = 0.6 \<and>
         list_all (\<lambda>c. isLowerLetter c \<or> isSpace c \<or> c = CHR ''-'') (word e)"
proof -
  from assms obtain w where w: "w \<noteq> []" "matchesWordPattern w"
    and e: "e = \<lparr>word = toLowerCase w, confidence = 0.6\<rparr>"
    by (auto simp: fallbackParseWords_def dest!: in_set_takeD)
  have "list_all (\<lambda>c. isLowerLetter c \<or> isSpace c \<or> c = CHR ''-'') (toLowerCase w)"
    using w(2)
    by (auto simp: matchesWordPattern_def toLowerCase_def list_all_iff
        toLowerChar_letter toLowerChar_space toLowerChar_hyphen)
  with w e show ?thesis by (simp add: toLowerCase_def)
qed

text \<open>
  Claim C10 as stated: every returned word consists only of letters, spaces and hyphens.
  The pattern admits every character of the class \<open>\s\<close>, so a tab inside a field
  survives: the field \<open>big<TAB>dog\<close> is returned as one word, and the tab is neither a
  letter, nor a space, nor a hyphen.
\<close>

theorem C10_counterexample:
  "fallbackParseWords (''big'' @ [CHR 0x09] @ ''dog'') =
     [\<lparr>word = ''big'' @ [CHR 0x09] @ ''dog'', confidence = 0.6\<rparr>] \<and>
   \<not> isAsciiLetter (CHR 0x09) \<and> CHR 0x09 \<noteq> CHR '' '' \<and> CHR 0x09 \<noteq> CHR ''-''"
  by code_simp

text \<open>
  Claim C10, amended: for every input string the permissive parser returns at most 10
  entries; every returned word is non-empty and consists only of lowercase letters
  \<open>a\<close>..\<open>z\<close>, whitespace characters (the class \<open>\s\<close>: spaces, but also tabs and the
  like) and hyphens; every returned confidence is exactly 0.6.
\<close>

theorem C10_fallbackParseWords_entries:
  "length (fallbackParseWords r) \<le> 10 \<and>
   (\<forall>e \<in> set (fallbackParseWords r).
      word e \<noteq> [] \<and> confidence e = 0.6 \<and>
      (\<forall>c \<in> set (word e). isLowerLetter c \<or> isSpace c \<or> c = CHR ''-''))"
proof -
  have "length (fallbackParseWords r) \<le> 10"
    by (simp add: fallbackParseWords_def)
  moreover have "\<forall>e \<in> set (fallbackParseWords r).
      word e \<noteq> [] \<and> confidence e = 0.6 \<and>
      (\<forall>c \<in> set (word e). isLowerLetter c \<or> isSpace c \<or> c = CHR ''-'')"
    using fallbackParseWords_entry [of _ r] by (simp add: list_all_iff)
  ultimately show ?thesis by simp
qed

theorem C10_fallbackParseWords_entries_witness:
  "fallbackParseWords ''Happy, joyful, c3po, well-off'' =
     [\<lparr>word = ''happy'', confidence = 0.6\<rparr>, \<lparr>word = ''joyful'', confidence = 0.6\<rparr>,
      \<lparr>word = ''well-off'', confidence = 0.6\<rparr>] \<and>
   length (fallbackParseWords ''Happy, joyful, c3po, well-off'') \<le> 10 \<and>
   list_all (\<lambda>e. word e \<noteq> [] \<and> confidence e = 0.6 \<and>
               list_all (\<lambda>c. isLowerLetter c \<or> isSpace c \<or> c = CHR ''-'') (word e))
     (fallbackParseWords ''Happy, joyful, c3po, well-off'')"
proof -
  have v: "fallbackParseWords ''Happy, joyful, c3po, well-off'' =
     [\<lparr>word = ''happy'', confidence = 0.6\<rparr>, \<lparr>word = ''joyful'', confidence = 0.6\<rparr>,
      \<lparr>word = ''well-off'', confidence = 0.6\<rparr>]"
    by code_simp
  from C10_fallbackParseWords_entries [of "''Happy, joyful, c3po, well-off''"]
  show ?thesis unfolding v by (simp add: list_all_iff)
qed

section \<open>The local provider: the token looked up, the miss, the unloaded model\<close>

lemma firstField_splitOn: "firstField (splitOn P s) = takeWhile (\<lambda>c. \<not> P c) s"
  by (induction s) (auto simp: firstField_def split: list.splits)

text \<open>
  Claim C8 as stated: after loading, only the first whitespace-delimited token of the
  lowercased text is looked up.  The text is split at the space character alone: with the
  vocabulary \<open>hello \<mapsto> [1, 2]\<close> and the text \<open>Hello<TAB>World\<close>, whose first
  whitespace-delimited token is \<open>hello\<close>, the word looked up is the whole text, which
  misses, and the zero vector is returned.
\<close>

theorem C8_counterexample:
  "w2v_generateEmbedding
     (snd (loadPretrainedModel word2vecService (Inr [''hello'' \<mapsto> [1, 2]])))
     (''Hello'' @ [CHR 0x09] @ ''World'') =
     Inr \<lparr>er_model = ''word2vec'', er_embedding = replicate 300 0, er_dimension = 300\<rparr> \<and>
   firstWhitespaceToken (toLowerCase (''Hello'' @ [CHR 0x09] @ ''World'')) = ''hello''"
  by code_simp

text \<open>
  Claim C8, amended: before any model is loaded, \<open>generateEmbedding\<close> of the local provider
  fails with the model-not-loaded error.  After a model has been loaded it looks up the
  lowercased, trimmed text up to its first space character (U+0020; a tab or a line break
  does not end the token); when that word is not in the vocabulary it returns an all-zero
  vector of length 300 (\<open>defaultVectorSize\<close>, which is also the configured vector size of
  the exported service instance) instead of raising, and otherwise the stored vector.
\<close>

theorem C8_w2v_generateEmbedding:
  "(\<not> isModelLoaded s \<longrightarrow> w2v_generateEmbedding s text = Inl Word2VecModelNotLoaded) \<and>
   w2v_generateEmbedding word2vecService text = Inl Word2VecModelNotLoaded \<and>
   fst (loadPretrainedModel s (Inr m)) = Inr () \<and>
   w2v_generateEmbedding (snd (loadPretrainedModel s (Inr m))) text =
     Inr (case m (takeWhile (\<lambda>c. c \<noteq> CHR '' '') (trim (toLowerCase text))) of
            None \<Rightarrow> \<lparr>er_model = ''word2vec'', er_embedding = replicate 300 0,
                      er_dimension = 300\<rparr>
          | Some vector \<Rightarrow> \<lparr>er_model = ''word2vec'', er_embedding = vector,
                            er_dimension = length vector\<rparr>) \<and>
   getVectorSize word2vecService = 300"
  by (simp add: w2v_generateEmbedding_def loadPretrainedModel_def word2vecService_def
      new_Word2VecService_def getVectorSize_def defaultVectorSize_def modelName_def
      firstField_splitOn split: option.splits)

theorem C8_w2v_generateEmbedding_witness:
  "\<not> isModelLoaded word2vecService \<and>
   w2v_generateEmbedding word2vecService ''Hello World'' = Inl Word2VecModelNotLoaded \<and>
   w2v_generateEmbedding
     (snd (loadPretrainedModel word2vecService (Inr [''hello'' \<mapsto> [1, 2]]))) ''  Hello World'' =
     Inr \<lparr>er_model = ''word2vec'', er_embedding = [1, 2], er_dimension = 2\<rparr>"
proof -
  have t: "takeWhile (\<lambda>c. c \<noteq> CHR '' '') (trim (toLowerCase ''  Hello World'')) = ''hello''"
    by code_simp
  have n: "\<not> isModelLoaded word2vecService"
    by (simp add: word2vecService_def new_Word2VecService_def)
  from n C8_w2v_generateEmbedding [of word2vecService "''Hello World''"]
    C8_w2v_generateEmbedding [of word2vecService "''  Hello World''" "[''hello'' \<mapsto> [1, 2]]"]
  show ?thesis unfolding t by simp
qed

section \<open>Provider availability: what the query reports\<close>

text \<open>
  Claim C9 as stated: the availability query is true only for a provider that is reachable
  now.  For \<open>ollama\<close> the query answers true without looking at the server: it is true
  in a state where the server does not answer.
\<close>

theorem C9_counterexample:
  "isProviderAvailable \<lparr>ollama_reachable = False, w2v = word2vecService\<rparr> ''ollama'' = True \<and>
   checkModelAvailability \<lparr>ollama_reachable = False, w2v = word2vecService\<rparr> = False"
  by (simp add: isProviderAvailable_def checkModelAvailability_def)

text \<open>
  Claim C9, amended: the availability query returns true for the provider \<open>ollama\<close>
  unconditionally (whether or not the server is reachable), for the provider \<open>word2vec\<close>
  if and only if its model is currently loaded, and false for every other provider name.
\<close>

theorem C9_isProviderAvailable:
  "isProviderAvailable st p =
     (p = ''ollama'' \<or> (p = ''word2vec'' \<and> isModelLoaded (w2v st)))"
  by (simp add: isProviderAvailable_def isLoaded_def)

section \<open>The edit-distance matrix computes the Levenshtein distance\<close>






lemma editDistance_0_right [simp]: "editDistance s t i 0 = i"
  by (cases i) simp_all

















section \<open>The fallback search: failure on a length mismatch, and the ranking\<close>

lemma number_ge_not_NaN: "number_ge x y \<Longrightarrow> x \<noteq> NaN \<and> y \<noteq> NaN"
  by (cases x; cases y) simp_all

lemma number_ge_total: "x \<noteq> NaN \<Longrightarrow> y \<noteq> NaN \<Longrightarrow> number_ge x y \<or> number_ge y x"
  by (cases x; cases y) auto

lemma subtractionOrdered_exactArith: "subtractionOrdered exactArith"
proof -
  have "isPositive (exact_sub x y) = (\<not> number_ge y x)" if "x \<noteq> NaN" "y \<noteq> NaN" for x y
    using that by (cases x; cases y) (auto simp: exact_sub_def)
  then show ?thesis by (simp add: subtractionOrdered_def exactArith_def)
qed

lemma cosine_loop:
  "n \<le> length a \<Longrightarrow> n \<le> length b \<Longrightarrow>
   fold (\<lambda>i (d, na, nb).
           (fadd ar d (fmul ar (a ! i) (b ! i)),
            fadd ar na (fmul ar (a ! i) (a ! i)),
            fadd ar nb (fmul ar (b ! i) (b ! i))))
     [0..<n] (d0, na0, nb0) =
   (foldl (\<lambda>s (x, y). fadd ar s (fmul ar x y)) d0 (zip (take n a) (take n b)),
    foldl (\<lambda>s (x, y). fadd ar s (fmul ar x y)) na0 (zip (take n a) (take n a)),
    foldl (\<lambda>s (x, y). fadd ar s (fmul ar x y)) nb0 (zip (take n b) (take n b)))"
proof (induction n)
  case 0
  then show ?case by simp
next
  case (Suc n)
  then show ?case
    by (simp add: take_Suc_conv_app_nth zip_append)
qed

lemma calculateCosineSimilarity_cosine:
  "length a = length b \<Longrightarrow> calculateCosineSimilarity ar a b = Inr (cosine ar a b)"
  using cosine_loop [of "length a" a b ar "Finite 0" "Finite 0" "Finite 0"]
  by (simp add: calculateCosineSimilarity_def cosine_def innerProduct_def vectorNorm_def Let_def)

lemma calculateCosineSimilarity_mismatch:
  "length a \<noteq> length b \<Longrightarrow> calculateCosineSimilarity ar a b = Inl VectorsMustHaveTheSameLength"
  by (simp add: calculateCosineSimilarity_def)

lemma mapE_Inr:
  "(\<And>x. x \<in> set xs \<Longrightarrow> f x = Inr (g x)) \<Longrightarrow> mapE f xs = Inr (map g xs)"
  by (induction xs) simp_all

lemma mapE_Inl:
  "(\<And>x. x \<in> set xs \<Longrightarrow> f x = Inl e \<or> (\<exists>y. f x = Inr y)) \<Longrightarrow>
   \<exists>x \<in> set xs. f x = Inl e \<Longrightarrow> mapE f xs = Inl e"
proof (induction xs)
  case Nil
  then show ?case by simp
next
  case (Cons x xs)
  show ?case
  proof (cases "f x")
    case (Inl a)
    with Cons.prems(1) [of x] show ?thesis by simp
  next
    case (Inr y)
    with Cons.prems have "\<exists>x \<in> set xs. f x = Inl e" by auto
    with Cons have "mapE f xs = Inl e" by simp
    with Inr show ?thesis by simp
  qed
qed

lemma scoring_ok:
  assumes "list_all (\<lambda>e. length (we_embedding e) = length q) rows"
  shows "mapE (\<lambda>embedding.
                 case calculateCosineSimilarity ar q (we_embedding embedding) of
                   Inl e \<Rightarrow> Inl e
                 | Inr sim \<Rightarrow>
                     Inr \<lparr>sr_word = w_word (we_word embedding),
                          similarity = sim,
                          sr_definition = w_definition (we_word embedding),
                          sr_partOfSpeech = w_partOfSpeech (we_word embedding)\<rparr>)
          rows = Inr (map (scored ar q) rows)"
  using assms
  by (intro mapE_Inr) (simp add: list_all_iff calculateCosineSimilarity_cosine scored_def)

lemma scoring_fails:
  assumes "list_ex (\<lambda>e. length (we_embedding e) \<noteq> length q) rows"
  shows "mapE (\<lambda>embedding.
                 case calculateCosineSimilarity ar q (we_embedding embedding) of
                   Inl e \<Rightarrow> Inl e
                 | Inr sim \<Rightarrow>
                     Inr \<lparr>sr_word = w_word (we_word embedding),
                          similarity = sim,
                          sr_definition = w_definition (we_word embedding),
                          sr_partOfSpeech = w_partOfSpeech (we_word embedding)\<rparr>)
          rows = Inl VectorsMustHaveTheSameLength"
proof (rule mapE_Inl)
  fix x
  show "(case calculateCosineSimilarity ar q (we_embedding x) of
           Inl e \<Rightarrow> Inl e
         | Inr sim \<Rightarrow>
             Inr \<lparr>sr_word = w_word (we_word x),
                  similarity = sim,
                  sr_definition = w_definition (we_word x),
                  sr_partOfSpeech = w_partOfSpeech (we_word x)\<rparr>) = Inl VectorsMustHaveTheSameLength \<or>
        (\<exists>y. (case calculateCosineSimilarity ar q (we_embedding x) of
                 Inl e \<Rightarrow> Inl e
               | Inr sim \<Rightarrow>
                   Inr \<lparr>sr_word = w_word (we_word x),
                        similarity = sim,
                        sr_definition = w_definition (we_word x),
                        sr_partOfSpeech = w_partOfSpeech (we_word x)\<rparr>) = Inr y)"
    by (cases "length q = length (we_embedding x)")
      (simp_all add: calculateCosineSimilarity_cosine calculateCosineSimilarity_mismatch)
next
  from assms obtain e where "e \<in> set rows" "length (we_embedding e) \<noteq> length q"
    by (auto simp: list_ex_iff)
  then show "\<exists>x\<in>set rows. (case calculateCosineSimilarity ar q (we_embedding x) of
                 Inl e \<Rightarrow> Inl e
               | Inr sim \<Rightarrow>
                   Inr \<lparr>sr_word = w_word (we_word x),
                        similarity = sim,
                        sr_definition = w_definition (we_word x),
                        sr_partOfSpeech = w_partOfSpeech (we_word x)\<rparr>) = Inl VectorsMustHaveTheSameLength"
    by (intro bexI [of _ e]) (simp_all add: calculateCosineSimilarity_mismatch)
qed

lemma set_insertBy: "set (insertBy cmp x ys) = insert x (set ys)"
  by (induction ys) auto

lemma set_sortBy: "set (sortBy cmp xs) = set xs"
  by (induction xs) (simp_all add: sortBy_def set_insertBy)

lemma length_insertBy: "length (insertBy cmp x ys) = Suc (length ys)"
  by (induction ys) simp_all

lemma length_sortBy: "length (sortBy cmp xs) = length xs"
  by (induction xs) (simp_all add: sortBy_def length_insertBy)

lemma set_insertDescending: "set (insertDescending x ys) = insert x (set ys)"
  by (induction ys) auto

lemma set_sortDescending: "set (sortDescending xs) = set xs"
  by (induction xs) (simp_all add: sortDescending_def set_insertDescending)

lemma insertBy_insertDescending:
  assumes "subtractionOrdered ar" "similarity x \<noteq> NaN" "\<And>y. y \<in> set ys \<Longrightarrow> similarity y \<noteq> NaN"
  shows "insertBy (\<lambda>a b. fsub ar (similarity b) (similarity a)) x ys = insertDescending x ys"
  using assms(3)
proof (induction ys)
  case Nil
  then show ?case by simp
next
  case (Cons y ys)
  have "isPositive (fsub ar (similarity y) (similarity x)) =
        (\<not> number_ge (similarity x) (similarity y))"
    using assms(1,2) Cons.prems [of y] by (simp add: subtractionOrdered_def)
  with Cons show ?case by simp
qed

lemma sortBy_sortDescending:
  assumes "subtractionOrdered ar" "\<And>x. x \<in> set xs \<Longrightarrow> similarity x \<noteq> NaN"
  shows "sortBy (\<lambda>a b. fsub ar (similarity b) (similarity a)) xs = sortDescending xs"
  using assms(2)
proof (induction xs)
  case Nil
  then show ?case by (simp add: sortBy_def sortDescending_def)
next
  case (Cons x xs)
  then have ih: "sortBy (\<lambda>a b. fsub ar (similarity b) (similarity a)) xs = sortDescending xs"
    by simp
  have "insertBy (\<lambda>a b. fsub ar (similarity b) (similarity a)) x (sortDescending xs) =
        insertDescending x (sortDescending xs)"
    using Cons.prems by (intro insertBy_insertDescending [OF assms(1)]) (simp_all add: set_sortDescending)
  with ih show ?case
    using ih by (simp add: sortBy_def sortDescending_def)
qed

lemma number_ge_trans: "number_ge x y \<Longrightarrow> number_ge y z \<Longrightarrow> number_ge x z"
  by (cases x; cases y; cases z) simp_all

lemma sorted_insertDescending:
  assumes "sorted_wrt (\<lambda>a b. number_ge (similarity a) (similarity b)) ys"
    "similarity x \<noteq> NaN" "\<And>y. y \<in> set ys \<Longrightarrow> similarity y \<noteq> NaN"
  shows "sorted_wrt (\<lambda>a b. number_ge (similarity a) (similarity b)) (insertDescending x ys)"
  using assms(1,3)
proof (induction ys)
  case Nil
  then show ?case by simp
next
  case (Cons y ys)
  show ?case
  proof (cases "number_ge (similarity x) (similarity y)")
    case True
    with Cons.prems(1) show ?thesis by (auto intro: number_ge_trans)
  next
    case False
    with number_ge_total [of "similarity x" "similarity y"] assms(2) Cons.prems(2) [of y]
    have "number_ge (similarity y) (similarity x)" by simp
    with False Cons show ?thesis by (auto simp: set_insertDescending)
  qed
qed

lemma sorted_sortDescending:
  assumes "\<And>x. x \<in> set xs \<Longrightarrow> similarity x \<noteq> NaN"
  shows "sorted_wrt (\<lambda>a b. number_ge (similarity a) (similarity b)) (sortDescending xs)"
  using assms
proof (induction xs)
  case Nil
  then show ?case by (simp add: sortDescending_def)
next
  case (Cons x xs)
  then have "sorted_wrt (\<lambda>a b. number_ge (similarity a) (similarity b)) (sortDescending xs)"
    by simp
  then have "sorted_wrt (\<lambda>a b. number_ge (similarity a) (similarity b))
               (insertDescending x (sortDescending xs))"
    using Cons.prems by (intro sorted_insertDescending) (simp_all add: set_sortDescending)
  then show ?case by (simp add: sortDescending_def)
qed

lemma slice0_take: "0 \<le> limit \<Longrightarrow> slice0 xs limit = take (nat limit) xs"
  by (simp add: slice0_def)

lemma set_slice0: "set (slice0 xs limit) \<subseteq> set xs"
  by (simp add: slice0_def set_take_subset)

lemma length_slice0: "length (slice0 xs limit) \<le> length xs"
proof (cases "limit < 0")
  case True
  then have "nat (int (length xs) + limit) \<le> length xs" by linarith
  with True show ?thesis by (simp add: slice0_def)
next
  case False
  then show ?thesis by (simp add: slice0_def)
qed

lemma findMany_length: "findMany d m = Inr rows \<Longrightarrow> length rows \<le> 1000"
  by (auto simp: findMany_def split: option.splits)

lemma findMany_Some:
  "storedEmbeddings d = Some table \<Longrightarrow>
   findMany d m = Inr (take 1000 (filter (\<lambda>e. we_model e = m) table))"
  by (simp add: findMany_def)

lemma fallback_unreadable:
  "findMany d m = Inl e \<Longrightarrow> fallbackSimilaritySearch ar d q m limit threshold = Inl e"
  by (simp add: fallbackSimilaritySearch_def)

lemma fallback_fails:
  "findMany d m = Inr rows \<Longrightarrow> list_ex (\<lambda>e. length (we_embedding e) \<noteq> length q) rows \<Longrightarrow>
   fallbackSimilaritySearch ar d q m limit threshold = Inl VectorsMustHaveTheSameLength"
  by (simp add: fallbackSimilaritySearch_def scoring_fails)

lemma fallback_ok:
  "findMany d m = Inr rows \<Longrightarrow> list_all (\<lambda>e. length (we_embedding e) = length q) rows \<Longrightarrow>
   fallbackSimilaritySearch ar d q m limit threshold =
     Inr (slice0
            (sortBy (\<lambda>a b. fsub ar (similarity b) (similarity a))
               (filter (\<lambda>r. number_ge (similarity r) threshold) (map (scored ar q) rows)))
            limit)"
  by (simp add: fallbackSimilaritySearch_def scoring_ok)

lemma ranking_sortBy:
  assumes "subtractionOrdered ar"
  shows "sortBy (\<lambda>a b. fsub ar (similarity b) (similarity a))
           (filter (\<lambda>r. number_ge (similarity r) threshold) rs) =
         sortDescending (filter (\<lambda>r. number_ge (similarity r) threshold) rs)"
  by (rule sortBy_sortDescending [OF assms]) (auto dest: number_ge_not_NaN)

lemma referenceRanking_sorted:
  "sorted_wrt (\<lambda>a b. number_ge (similarity a) (similarity b)) (referenceRanking ar table q m threshold)"
  unfolding referenceRanking_def
  by (rule sorted_sortDescending) (auto dest: number_ge_not_NaN)

lemma referenceRanking_set:
  "set (referenceRanking ar table q m threshold) =
   {r \<in> set (map (scored ar q) (take 1000 (filter (\<lambda>e. we_model e = m) table))).
      number_ge (similarity r) threshold}"
  by (simp add: referenceRanking_def set_sortDescending)

text \<open>
  Claim C2 as stated: a stored vector whose length differs from the query's is skipped
  and the search over the others completes.  The similarity function throws for such a
  vector and nothing in the search catches it: with one stored vector of the query's length
  and one shorter vector, the whole search fails, whatever the arithmetic.
\<close>

theorem C2_counterexample:
  "\<forall>ar. fallbackSimilaritySearch ar
     \<lparr>storedEmbeddings = Some
        [\<lparr>we_wordId = 1, we_model = ''m'', we_embedding = [Finite 1, Finite 0],
           we_word = \<lparr>w_word = ''glad'', w_definition = None, w_partOfSpeech = None\<rparr>\<rparr>,
         \<lparr>we_wordId = 2, we_model = ''m'', we_embedding = [Finite 1],
           we_word = \<lparr>w_word = ''merry'', w_definition = None, w_partOfSpeech = None\<rparr>\<rparr>],
      queryRaw = (\<lambda>v m t l. None)\<rparr>
     [Finite 1, Finite 0] ''m'' 10 (Finite 0) = Inl VectorsMustHaveTheSameLength"
  by (simp add: fallbackSimilaritySearch_def findMany_def calculateCosineSimilarity_cosine
      calculateCosineSimilarity_mismatch)

text \<open>
  Claim C2, amended: during the brute-force fallback search, if any of the loaded stored
  vectors has a length different from the query vector's, the whole search fails with the
  error \<open>Vectors must have the same length\<close> (the vector is not skipped).  If the
  stored vectors are read and every loaded one has the query's length, the search
  completes and returns a list of scored stored rows, no longer than the list of loaded
  rows.  If the read of the stored vectors is rejected, the search fails with the error of
  the read.  So the search returns a result exactly when the stored vectors are read and
  every loaded one has the query's length.
\<close>

theorem C2_length_mismatch_fails_search:
  "(findMany d m = Inr rows \<and> list_ex (\<lambda>e. length (we_embedding e) \<noteq> length q) rows \<longrightarrow>
      fallbackSimilaritySearch ar d q m limit threshold = Inl VectorsMustHaveTheSameLength) \<and>
   (findMany d m = Inr rows \<and> list_all (\<lambda>e. length (we_embedding e) = length q) rows \<longrightarrow>
      (\<exists>rs. fallbackSimilaritySearch ar d q m limit threshold = Inr rs \<and>
            set rs \<subseteq> set (map (scored ar q) rows) \<and> length rs \<le> length rows)) \<and>
   (findMany d m = Inl e \<longrightarrow> fallbackSimilaritySearch ar d q m limit threshold = Inl e) \<and>
   (\<exists>rs. fallbackSimilaritySearch ar d q m limit threshold = Inr rs) =
     (\<exists>loaded. findMany d m = Inr loaded \<and>
        list_all (\<lambda>e. length (we_embedding e) = length q) loaded)"
proof -
  let ?cmp = "\<lambda>a b. fsub ar (similarity b) (similarity a)"
  have ok: "\<exists>rs. fallbackSimilaritySearch ar d q m limit threshold = Inr rs \<and>
            set rs \<subseteq> set (map (scored ar q) loaded) \<and> length rs \<le> length loaded"
    if "findMany d m = Inr loaded" "list_all (\<lambda>e. length (we_embedding e) = length q) loaded"
    for loaded
  proof -
    let ?kept = "filter (\<lambda>r. number_ge (similarity r) threshold) (map (scored ar q) loaded)"
    have "set (slice0 (sortBy ?cmp ?kept) limit) \<subseteq> set (map (scored ar q) loaded)"
      using set_slice0 [of "sortBy ?cmp ?kept" limit] by (auto simp: set_sortBy)
    moreover have "length (slice0 (sortBy ?cmp ?kept) limit) \<le> length loaded"
      using length_slice0 [of "sortBy ?cmp ?kept" limit] length_filter_le [of _ "map (scored ar q) loaded"]
      by (simp add: length_sortBy le_trans)
    ultimately show ?thesis
      using fallback_ok [OF that, of ar limit threshold] by blast
  qed
  have iff: "(\<exists>rs. fallbackSimilaritySearch ar d q m limit threshold = Inr rs) =
     (\<exists>loaded. findMany d m = Inr loaded \<and>
        list_all (\<lambda>e. length (we_embedding e) = length q) loaded)"
  proof (cases "findMany d m")
    case (Inl err)
    with fallback_unreadable [OF Inl, of ar q limit threshold] show ?thesis by simp
  next
    case (Inr loaded)
    show ?thesis
    proof (cases "list_all (\<lambda>e. length (we_embedding e) = length q) loaded")
      case True
      with ok [OF Inr True] Inr show ?thesis by auto
    next
      case False
      then have "list_ex (\<lambda>e. length (we_embedding e) \<noteq> length q) loaded"
        by (simp add: list_all_iff list_ex_iff)
      with fallback_fails [OF Inr this, of ar limit threshold] Inr False show ?thesis by simp
    qed
  qed
  from ok [of rows] iff show ?thesis
    by (simp add: fallback_fails fallback_unreadable)
qed

theorem C2_length_mismatch_fails_search_witness:
  "fallbackSimilaritySearch exactArith
     \<lparr>storedEmbeddings = Some
        [\<lparr>we_wordId = 1, we_model = ''m'', we_embedding = [Finite 0, Finite 1],
           we_word = \<lparr>w_word = ''sad'', w_definition = None, w_partOfSpeech = None\<rparr>\<rparr>,
         \<lparr>we_wordId = 2, we_model = ''m'', we_embedding = [Finite 1, Finite 0, Finite 0],
           we_word = \<lparr>w_word = ''merry'', w_definition = None, w_partOfSpeech = None\<rparr>\<rparr>],
      queryRaw = (\<lambda>v m t l. None)\<rparr>
     [Finite 1, Finite 0] ''m'' 10 (Finite 0) = Inl VectorsMustHaveTheSameLength \<and>
   (\<exists>rs. fallbackSimilaritySearch exactArith
     \<lparr>storedEmbeddings = Some
        [\<lparr>we_wordId = 1, we_model = ''m'', we_embedding = [Finite 0, Finite 1],
           we_word = \<lparr>w_word = ''sad'', w_definition = None, w_partOfSpeech = None\<rparr>\<rparr>],
      queryRaw = (\<lambda>v m t l. None)\<rparr>
     [Finite 1, Finite 0] ''m'' 10 (Finite 0) = Inr rs \<and> length rs \<le> 1) \<and>
   fallbackSimilaritySearch exactArith
     \<lparr>storedEmbeddings = None, queryRaw = (\<lambda>v m t l. None)\<rparr>
     [Finite 1, Finite 0] ''m'' 10 (Finite 0) = Inl ClientError"
proof -
  let ?sad = "\<lparr>we_wordId = 1, we_model = ''m'', we_embedding = [Finite 0, Finite 1],
           we_word = \<lparr>w_word = ''sad'', w_definition = None, w_partOfSpeech = None\<rparr>\<rparr>"
  let ?merry = "\<lparr>we_wordId = 2, we_model = ''m'', we_embedding = [Finite 1, Finite 0, Finite 0],
           we_word = \<lparr>w_word = ''merry'', w_definition = None, w_partOfSpeech = None\<rparr>\<rparr>"
  let ?d1 = "\<lparr>storedEmbeddings = Some [?sad, ?merry], queryRaw = (\<lambda>v m t l. None)\<rparr>"
  let ?d2 = "\<lparr>storedEmbeddings = Some [?sad], queryRaw = (\<lambda>v m t l. None)\<rparr>"
  let ?d3 = "\<lparr>storedEmbeddings = None, queryRaw = (\<lambda>v m t l. None)\<rparr>"
  have f1: "findMany ?d1 ''m'' = Inr [?sad, ?merry]" by (simp add: findMany_def)
  have f2: "findMany ?d2 ''m'' = Inr [?sad]" by (simp add: findMany_def)
  have f3: "findMany ?d3 ''m'' = Inl ClientError" by (simp add: findMany_def)
  have a: "fallbackSimilaritySearch exactArith ?d1 [Finite 1, Finite 0] ''m'' 10 (Finite 0) =
           Inl VectorsMustHaveTheSameLength"
    using C2_length_mismatch_fails_search [of ?d1 "''m''" "[?sad, ?merry]" "[Finite 1, Finite 0]"
        exactArith 10 "Finite 0" ClientError, THEN conjunct1] f1
    by simp
  have b: "\<exists>rs. fallbackSimilaritySearch exactArith ?d2 [Finite 1, Finite 0] ''m'' 10 (Finite 0) = Inr rs \<and>
             length rs \<le> 1"
    using C2_length_mismatch_fails_search [of ?d2 "''m''" "[?sad]" "[Finite 1, Finite 0]"
        exactArith 10 "Finite 0" ClientError, THEN conjunct2, THEN conjunct1] f2
    by auto
  have c: "fallbackSimilaritySearch exactArith ?d3 [Finite 1, Finite 0] ''m'' 10 (Finite 0) =
           Inl ClientError"
    using C2_length_mismatch_fails_search [of ?d3 "''m''" "[]" "[Finite 1, Finite 0]"
        exactArith 10 "Finite 0" ClientError, THEN conjunct2, THEN conjunct2, THEN conjunct1] f3
    by simp
  from a b c show ?thesis by blast
qed

text \<open>
  Claim C3 as stated: for every query vector, model, limit and threshold the fallback
  search returns the reference pipeline's list, truncated to at most \<open>limit\<close>
  elements.  With the limit \<open>-1\<close> the list is cut one element short of its end, which
  leaves an element where a truncation to at most \<open>limit\<close> elements leaves none; and with
  a stored vector of another length the search returns no list at all.
\<close>

theorem C3_counterexample:
  "fallbackSimilaritySearch exactArith
     \<lparr>storedEmbeddings = Some
        [\<lparr>we_wordId = 1, we_model = ''m'', we_embedding = [Finite 1],
           we_word = \<lparr>w_word = ''glad'', w_definition = None, w_partOfSpeech = None\<rparr>\<rparr>,
         \<lparr>we_wordId = 2, we_model = ''m'', we_embedding = [Finite 1],
           we_word = \<lparr>w_word = ''merry'', w_definition = None, w_partOfSpeech = None\<rparr>\<rparr>],
      queryRaw = (\<lambda>v m t l. None)\<rparr>
     [Finite 1] ''m'' (- 1) (Finite 0) =
     Inr [\<lparr>sr_word = ''glad'', similarity = Finite 1, sr_definition = None,
           sr_partOfSpeech = None\<rparr>] \<and>
   referencePipeline exactArith
     [\<lparr>we_wordId = 1, we_model = ''m'', we_embedding = [Finite 1],
        we_word = \<lparr>w_word = ''glad'', w_definition = None, w_partOfSpeech = None\<rparr>\<rparr>,
      \<lparr>we_wordId = 2, we_model = ''m'', we_embedding = [Finite 1],
        we_word = \<lparr>w_word = ''merry'', w_definition = None, w_partOfSpeech = None\<rparr>\<rparr>]
     [Finite 1] ''m'' (nat (- 1)) (Finite 0) = [] \<and>
   (\<forall>ar. fallbackSimilaritySearch ar
     \<lparr>storedEmbeddings = Some
        [\<lparr>we_wordId = 1, we_model = ''m'', we_embedding = [Finite 1, Finite 1],
           we_word = \<lparr>w_word = ''glad'', w_definition = None, w_partOfSpeech = None\<rparr>\<rparr>],
      queryRaw = (\<lambda>v m t l. None)\<rparr>
     [Finite 1] ''m'' 5 (Finite 0) = Inl VectorsMustHaveTheSameLength)"
  by (simp add: fallbackSimilaritySearch_def findMany_def calculateCosineSimilarity_def
      sortBy_def slice0_def referencePipeline_def exactArith_def exact_sub_def isZero_def)

text \<open>
  Claim C3, amended: for every query vector, model and threshold, and every limit that is
  a non-negative integer, if the stored vectors are read and every loaded one has the
  query's length, then the brute-force fallback search equals the reference pipeline,
  computed in the arithmetic of the runtime: take the stored vectors for that model (the
  first 1000 at most), compute the cosine similarity of the query against each (the sums
  from the first component to the last), keep exactly those whose similarity is
  \<open>>=\<close> the threshold, sort them in descending order of similarity (equal
  similarities keep their stored order), and truncate the sorted list to at most
  \<open>limit\<close> elements.  The equality holds for every arithmetic in which a difference is
  positive exactly when its first operand is the greater, as in binary64.  The
  similarities are the rounded ones: the ranking is the ranking of the computed values.
\<close>

theorem C3_fallback_equals_reference_pipeline:
  "(subtractionOrdered ar \<and> storedEmbeddings d = Some table \<and> findMany d m = Inr rows \<and>
    list_all (\<lambda>e. length (we_embedding e) = length q) rows \<and> 0 \<le> limit \<longrightarrow>
      fallbackSimilaritySearch ar d q m limit threshold =
        Inr (referencePipeline ar table q m (nat limit) threshold)) \<and>
   (findMany d m = Inr rows \<longrightarrow> length rows \<le> 1000) \<and>
   length (referencePipeline ar table q m n threshold) \<le> n \<and>
   sorted_wrt (\<lambda>a b. number_ge (similarity a) (similarity b))
     (referencePipeline ar table q m n threshold) \<and>
   (\<forall>r \<in> set (referencePipeline ar table q m n threshold). number_ge (similarity r) threshold) \<and>
   set (referenceRanking ar table q m threshold) =
     {r \<in> set (map (scored ar q) (take 1000 (filter (\<lambda>e. we_model e = m) table))).
        number_ge (similarity r) threshold}"
proof -
  have eq: "fallbackSimilaritySearch ar d q m limit threshold =
        Inr (referencePipeline ar table q m (nat limit) threshold)"
    if "subtractionOrdered ar" "storedEmbeddings d = Some table" "findMany d m = Inr rows"
      "list_all (\<lambda>e. length (we_embedding e) = length q) rows" "0 \<le> limit"
  proof -
    from that(2,3) have rows: "rows = take 1000 (filter (\<lambda>e. we_model e = m) table)"
      by (simp add: findMany_def)
    from fallback_ok [OF that(3,4), of ar limit threshold] that(5) show ?thesis
      by (simp add: ranking_sortBy [OF that(1)] slice0_take referencePipeline_def
          referenceRanking_def rows)
  qed
  have s: "sorted_wrt (\<lambda>a b. number_ge (similarity a) (similarity b))
             (referencePipeline ar table q m n threshold)"
    unfolding referencePipeline_def by (rule sorted_wrt_take [OF referenceRanking_sorted])
  have t: "\<forall>r \<in> set (referencePipeline ar table q m n threshold). number_ge (similarity r) threshold"
    by (auto simp: referencePipeline_def referenceRanking_set dest!: in_set_takeD)
  have l: "length (referencePipeline ar table q m n threshold) \<le> n"
    by (simp add: referencePipeline_def)
  from eq s t l referenceRanking_set [of ar table q m threshold] findMany_length [of d m rows]
  show ?thesis by blast
qed

theorem C3_fallback_equals_reference_pipeline_witness:
  "subtractionOrdered exactArith \<and>
   fallbackSimilaritySearch exactArith
     \<lparr>storedEmbeddings = Some
        [\<lparr>we_wordId = 1, we_model = ''m'', we_embedding = [Finite 0, Finite 1],
           we_word = \<lparr>w_word = ''sad'', w_definition = None, w_partOfSpeech = None\<rparr>\<rparr>,
         \<lparr>we_wordId = 2, we_model = ''m'', we_embedding = [Finite 1, Finite 0],
           we_word = \<lparr>w_word = ''glad'', w_definition = None, w_partOfSpeech = None\<rparr>\<rparr>,
         \<lparr>we_wordId = 3, we_model = ''other'', we_embedding = [Finite 1],
           we_word = \<lparr>w_word = ''merry'', w_definition = None, w_partOfSpeech = None\<rparr>\<rparr>],
      queryRaw = (\<lambda>v m t l. None)\<rparr>
     [Finite 1, Finite 0] ''m'' 5 (Finite 0) =
     Inr [\<lparr>sr_word = ''glad'', similarity = Finite 1, sr_definition = None, sr_partOfSpeech = None\<rparr>,
          \<lparr>sr_word = ''sad'', similarity = Finite 0, sr_definition = None, sr_partOfSpeech = None\<rparr>]"
proof -
  let ?sad = "\<lparr>we_wordId = 1, we_model = ''m'', we_embedding = [Finite 0, Finite 1],
           we_word = \<lparr>w_word = ''sad'', w_definition = None, w_partOfSpeech = None\<rparr>\<rparr>"
  let ?glad = "\<lparr>we_wordId = 2, we_model = ''m'', we_embedding = [Finite 1, Finite 0],
           we_word = \<lparr>w_word = ''glad'', w_definition = None, w_partOfSpeech = None\<rparr>\<rparr>"
  let ?merry = "\<lparr>we_wordId = 3, we_model = ''other'', we_embedding = [Finite 1],
           we_word = \<lparr>w_word = ''merry'', w_definition = None, w_partOfSpeech = None\<rparr>\<rparr>"
  let ?d = "\<lparr>storedEmbeddings = Some [?sad, ?glad, ?merry], queryRaw = (\<lambda>v m t l. None)\<rparr>"
  have p: "referencePipeline exactArith [?sad, ?glad, ?merry] [Finite 1, Finite 0] ''m'' (nat 5) (Finite 0) =
       [\<lparr>sr_word = ''glad'', similarity = Finite 1, sr_definition = None, sr_partOfSpeech = None\<rparr>,
        \<lparr>sr_word = ''sad'', similarity = Finite 0, sr_definition = None, sr_partOfSpeech = None\<rparr>]"
    by (simp add: referencePipeline_def referenceRanking_def scored_def cosine_def vectorNorm_def
        innerProduct_def sortDescending_def exactArith_def isZero_def)
  have h: "subtractionOrdered exactArith \<and> storedEmbeddings ?d = Some [?sad, ?glad, ?merry] \<and>
      findMany ?d ''m'' = Inr [?sad, ?glad] \<and>
      list_all (\<lambda>e. length (we_embedding e) = length [Finite 1, Finite 0]) [?sad, ?glad] \<and>
      (0 :: int) \<le> 5"
    by (simp add: subtractionOrdered_exactArith findMany_def)
  have "fallbackSimilaritySearch exactArith ?d [Finite 1, Finite 0] ''m'' 5 (Finite 0) =
        Inr (referencePipeline exactArith [?sad, ?glad, ?merry] [Finite 1, Finite 0] ''m'' (nat 5)
               (Finite 0))"
    by (rule C3_fallback_equals_reference_pipeline [of exactArith ?d "[?sad, ?glad, ?merry]" "''m''"
          "[?sad, ?glad]" "[Finite 1, Finite 0]" 5 "Finite 0" 5, THEN conjunct1, THEN mp, OF h])
  then show ?thesis
    unfolding p using subtractionOrdered_exactArith by simp
qed

section \<open>The comprehensive analysis: one failed operation fails the analysis\<close>

lemma cache_get_cache_set:
  "cache_get (cache_set c k v ttl) k' = (if k' = k then Some v else cache_get c k')"
  by (simp add: cache_get_def cache_set_def update_conv')

lemma cache_get_findSynonyms:
  "k \<noteq> synonymsCacheKey w context \<Longrightarrow>
   cache_get (snd (findSynonyms svc env c w context)) k = cache_get c k"
  by (simp add: findSynonyms_def Let_def cache_get_cache_set split: option.splits)

lemma cache_get_findAntonyms:
  "k \<noteq> antonymsCacheKey w context \<Longrightarrow>
   cache_get (snd (findAntonyms svc env c w context)) k = cache_get c k"
  by (simp add: findAntonyms_def Let_def cache_get_cache_set split: option.splits)

lemma cache_get_getDefinition:
  "k \<noteq> definitionCacheKey w pos \<Longrightarrow>
   cache_get (snd (getDefinition svc env c w pos)) k = cache_get c k"
  by (simp add: getDefinition_def Let_def cache_get_cache_set split: option.splits)

lemma findAntonyms_cong:
  "cache_get c' (antonymsCacheKey w context) = cache_get c (antonymsCacheKey w context) \<Longrightarrow>
   fst (findAntonyms svc env c' w context) = fst (findAntonyms svc env c w context)"
  by (simp add: findAntonyms_def Let_def cachedWords_def split: option.splits cache_value.splits)

lemma getDefinition_cong:
  "cache_get c' (definitionCacheKey w pos) = cache_get c (definitionCacheKey w pos) \<Longrightarrow>
   fst (getDefinition svc env c' w pos) = fst (getDefinition svc env c w pos)"
  by (simp add: getDefinition_def Let_def cachedString_def split: option.splits cache_value.splits)

lemma analyzeContextualMeaning_cong:
  "cache_get c' (contextCacheKey w ctx) = cache_get c (contextCacheKey w ctx) \<Longrightarrow>
   fst (analyzeContextualMeaning svc env c' w ctx) = fst (analyzeContextualMeaning svc env c w ctx)"
  by (simp add: analyzeContextualMeaning_def Let_def cachedContexts_def
      split: option.splits cache_value.splits)

lemma keys_distinct:
  "antonymsCacheKey w a \<noteq> synonymsCacheKey w' b"
  "definitionCacheKey w a \<noteq> synonymsCacheKey w' b"
  "definitionCacheKey w a \<noteq> antonymsCacheKey w' b"
  "contextCacheKey w x \<noteq> synonymsCacheKey w' b"
  "contextCacheKey w x \<noteq> antonymsCacheKey w' b"
  "contextCacheKey w x \<noteq> definitionCacheKey w' b"
  by (simp_all add: antonymsCacheKey_def synonymsCacheKey_def definitionCacheKey_def
      contextCacheKey_def)

lemma antonyms_after_synonyms:
  "fst (findAntonyms svc env (snd (findSynonyms svc env c w context)) w context) =
   fst (findAntonyms svc env c w context)"
  by (rule findAntonyms_cong) (simp add: cache_get_findSynonyms keys_distinct)

lemma definition_after_antonyms:
  "fst (getDefinition svc env
          (snd (findAntonyms svc env (snd (findSynonyms svc env c w context)) w context)) w pos) =
   fst (getDefinition svc env c w pos)"
  by (rule getDefinition_cong)
    (simp add: cache_get_findSynonyms cache_get_findAntonyms keys_distinct)

lemma context_after_definition:
  "fst (analyzeContextualMeaning svc env
          (snd (getDefinition svc env
             (snd (findAntonyms svc env (snd (findSynonyms svc env c w context)) w context))
             w pos)) w ctx) =
   fst (analyzeContextualMeaning svc env c w ctx)"
  by (rule analyzeContextualMeaning_cong)
    (simp add: cache_get_findSynonyms cache_get_findAntonyms cache_get_getDefinition keys_distinct)

lemma performComprehensiveAnalysis_joined:
  assumes "cachedAnalysis c (analysisCacheKey w context) = None"
  shows "fst (performComprehensiveAnalysis ar svc env c w context) =
         joined ar w (fst (findSynonyms svc env c w context))
           (fst (findAntonyms svc env c w context))
           (fst (getDefinition svc env c w None))
           (case truthy context of
              Some ctx \<Rightarrow> fst (analyzeContextualMeaning svc env c w ctx)
            | None \<Rightarrow> Inr [])"
proof -
  let ?c1 = "snd (findSynonyms svc env c w context)"
  let ?c2 = "snd (findAntonyms svc env ?c1 w context)"
  let ?c3 = "snd (getDefinition svc env ?c2 w None)"
  have "fst (performComprehensiveAnalysis ar svc env c w context) =
        joined ar w (fst (findSynonyms svc env c w context))
           (fst (findAntonyms svc env ?c1 w context))
           (fst (getDefinition svc env ?c2 w None))
           (case truthy context of
              Some ctx \<Rightarrow> fst (analyzeContextualMeaning svc env ?c3 w ctx)
            | None \<Rightarrow> Inr [])"
    using assms
    by (simp add: performComprehensiveAnalysis_def joined_def Let_def split_beta
        split: option.splits sum.splits)
  then show ?thesis
    by (simp only: antonyms_after_synonyms definition_after_antonyms context_after_definition)
qed

lemma joined_if:
  "joined ar w r1 r2 r3 r4 =
     (if isl r1 \<or> isl r2 \<or> isl r3 \<or> isl r4 then Inl FailedToPerformComprehensiveAnalysis
      else Inr \<lparr>wa_word = w,
                wa_definition = projr r3,
                wa_partOfSpeech = extractPartOfSpeech (projr r3),
                wa_synonyms = projr r1,
                wa_antonyms = projr r2,
                wa_contexts = projr r4,
                wa_confidence = calculateOverallConfidence ar (projr r1) (projr r2)\<rparr>)"
  by (cases r1; cases r2; cases r3; cases r4) (simp_all add: joined_def)

lemma findSynonyms_isl:
  "isl (fst (findSynonyms svc env c w context)) =
     (cachedWords c (synonymsCacheKey w context) = None \<and>
      generate env (languageModel svc) (buildSynonymPrompt w context) = None)"
  by (simp add: findSynonyms_def Let_def split: option.splits)

lemma findAntonyms_isl:
  "isl (fst (findAntonyms svc env c w context)) =
     (cachedWords c (antonymsCacheKey w context) = None \<and>
      generate env (languageModel svc) (buildAntonymPrompt w context) = None)"
  by (simp add: findAntonyms_def Let_def split: option.splits)

lemma getDefinition_isl:
  "isl (fst (getDefinition svc env c w pos)) =
     (cachedString c (definitionCacheKey w pos) = None \<and>
      generate env (languageModel svc) (buildDefinitionPrompt w pos) = None)"
  by (simp add: getDefinition_def Let_def split: option.splits)

lemma analyzeContextualMeaning_isl:
  "isl (fst (analyzeContextualMeaning svc env c w ctx)) =
     (cachedContexts c (contextCacheKey w ctx) = None \<and>
      generate env (languageModel svc) (buildContextAnalysisPrompt w ctx) = None)"
  by (simp add: analyzeContextualMeaning_def Let_def split: option.splits)

text \<open>
  Claim C1 as stated: when some, but not all, of the sub-operations fail, the analysis
  still returns a result, with an empty list or string for each failed one.  With an
  empty cache, no context, and a language model that answers every call but the
  antonym call, the synonym and definition operations succeed and the analysis returns
  its error, not a result with an empty antonym list.
\<close>

theorem C1_counterexample:
  "fst (performComprehensiveAnalysis exactArith
          \<lparr>languageModel = ''qwen2.5:14b'', embeddingModel = ''nomic-embed-text''\<rparr>
          \<lparr>generate = (\<lambda>m p. case p of AntonymPrompt _ _ \<Rightarrow> None | _ \<Rightarrow> Some ''glad, Merry''),
           embeddings = (\<lambda>m t. None), parseJsonWords = (\<lambda>r. None),
           parseJsonContexts = (\<lambda>r. None)\<rparr>
          \<lparr>entries = [], defaultTTL = 3600\<rparr> ''happy'' None) =
     Inl FailedToPerformComprehensiveAnalysis \<and>
   fst (findSynonyms
          \<lparr>languageModel = ''qwen2.5:14b'', embeddingModel = ''nomic-embed-text''\<rparr>
          \<lparr>generate = (\<lambda>m p. case p of AntonymPrompt _ _ \<Rightarrow> None | _ \<Rightarrow> Some ''glad, Merry''),
           embeddings = (\<lambda>m t. None), parseJsonWords = (\<lambda>r. None),
           parseJsonContexts = (\<lambda>r. None)\<rparr>
          \<lparr>entries = [], defaultTTL = 3600\<rparr> ''happy'' None) =
     Inr [\<lparr>word = ''glad'', confidence = 0.6\<rparr>, \<lparr>word = ''merry'', confidence = 0.6\<rparr>] \<and>
   fst (getDefinition
          \<lparr>languageModel = ''qwen2.5:14b'', embeddingModel = ''nomic-embed-text''\<rparr>
          \<lparr>generate = (\<lambda>m p. case p of AntonymPrompt _ _ \<Rightarrow> None | _ \<Rightarrow> Some ''glad, Merry''),
           embeddings = (\<lambda>m t. None), parseJsonWords = (\<lambda>r. None),
           parseJsonContexts = (\<lambda>r. None)\<rparr>
          \<lparr>entries = [], defaultTTL = 3600\<rparr> ''happy'' None) = Inr ''glad, Merry''"
proof -
  let ?svc = "\<lparr>languageModel = ''qwen2.5:14b'', embeddingModel = ''nomic-embed-text''\<rparr>"
  let ?env = "\<lparr>generate = (\<lambda>m p. case p of AntonymPrompt _ _ \<Rightarrow> None | _ \<Rightarrow> Some ''glad, Merry''),
           embeddings = (\<lambda>m t. None), parseJsonWords = (\<lambda>r. None),
           parseJsonContexts = (\<lambda>r. None)\<rparr>"
  let ?c = "\<lparr>entries = [], defaultTTL = 3600\<rparr>"
  have h: "cachedAnalysis ?c (analysisCacheKey ''happy'' None) = None"
    by code_simp
  have r1: "fst (findSynonyms ?svc ?env ?c ''happy'' None) =
      Inr [\<lparr>word = ''glad'', confidence = 0.6\<rparr>, \<lparr>word = ''merry'', confidence = 0.6\<rparr>]"
    by code_simp
  have r2: "fst (findAntonyms ?svc ?env ?c ''happy'' None) = Inl FailedToFindAntonyms"
    by code_simp
  have r3: "fst (getDefinition ?svc ?env ?c ''happy'' None) = Inr ''glad, Merry''"
    by code_simp
  have t: "truthy None = None"
    by (simp add: truthy_def)
  have "fst (performComprehensiveAnalysis exactArith ?svc ?env ?c ''happy'' None) =
        Inl FailedToPerformComprehensiveAnalysis"
    unfolding performComprehensiveAnalysis_joined [OF h] r1 r2 r3 t by (simp add: joined_def)
  with r1 r3 show ?thesis by blast
qed

text \<open>
  Claim C1, amended: for the comprehensive analysis of a (word, optional context) pair
  with no cached analysis, the operation returns an analysis only when none of the
  sub-operations it starts fails (synonyms, antonyms, definition, and, for a non-empty
  context only, contextual meaning), and the analysis then holds their results.  As soon
  as at least one of them fails, whether some or all, it surfaces the single error of the
  analysis and no partial result.  A sub-operation fails exactly when it has no cached
  result and its language-model call fails.
\<close>

theorem C1_analysis_needs_every_suboperation:
  "(cachedAnalysis c (analysisCacheKey w context) = None \<longrightarrow>
      (let r1 = fst (findSynonyms svc env c w context);
           r2 = fst (findAntonyms svc env c w context);
           r3 = fst (getDefinition svc env c w None);
           r4 = (case truthy context of
                   Some ctx \<Rightarrow> fst (analyzeContextualMeaning svc env c w ctx)
                 | None \<Rightarrow> Inr [])
       in fst (performComprehensiveAnalysis ar svc env c w context) =
            (if isl r1 \<or> isl r2 \<or> isl r3 \<or> isl r4
             then Inl FailedToPerformComprehensiveAnalysis
             else Inr \<lparr>wa_word = w,
                       wa_definition = projr r3,
                       wa_partOfSpeech = extractPartOfSpeech (projr r3),
                       wa_synonyms = projr r1,
                       wa_antonyms = projr r2,
                       wa_contexts = projr r4,
                       wa_confidence = calculateOverallConfidence ar (projr r1) (projr r2)\<rparr>))) \<and>
   isl (fst (findSynonyms svc env c w context)) =
     (cachedWords c (synonymsCacheKey w context) = None \<and>
      generate env (languageModel svc) (buildSynonymPrompt w context) = None) \<and>
   isl (fst (findAntonyms svc env c w context)) =
     (cachedWords c (antonymsCacheKey w context) = None \<and>
      generate env (languageModel svc) (buildAntonymPrompt w context) = None) \<and>
   isl (fst (getDefinition svc env c w None)) =
     (cachedString c (definitionCacheKey w None) = None \<and>
      generate env (languageModel svc) (buildDefinitionPrompt w None) = None) \<and>
   isl (fst (analyzeContextualMeaning svc env c w ctx)) =
     (cachedContexts c (contextCacheKey w ctx) = None \<and>
      generate env (languageModel svc) (buildContextAnalysisPrompt w ctx) = None)"
  by (intro conjI impI findSynonyms_isl findAntonyms_isl getDefinition_isl
      analyzeContextualMeaning_isl)
    (simp add: Let_def performComprehensiveAnalysis_joined joined_if)

theorem C1_analysis_needs_every_suboperation_witness:
  "cachedAnalysis \<lparr>entries = [], defaultTTL = 3600\<rparr> (analysisCacheKey ''happy'' None) = None \<and>
   fst (performComprehensiveAnalysis exactArith
          \<lparr>languageModel = ''qwen2.5:14b'', embeddingModel = ''nomic-embed-text''\<rparr>
          \<lparr>generate = (\<lambda>m p. Some ''glad, merry''),
           embeddings = (\<lambda>m t. None), parseJsonWords = (\<lambda>r. None),
           parseJsonContexts = (\<lambda>r. None)\<rparr>
          \<lparr>entries = [], defaultTTL = 3600\<rparr> ''happy'' None) =
     Inr \<lparr>wa_word = ''happy'',
          wa_definition = ''glad, merry'',
          wa_partOfSpeech = extractPartOfSpeech ''glad, merry'',
          wa_synonyms = [\<lparr>word = ''glad'', confidence = 0.6\<rparr>, \<lparr>word = ''merry'', confidence = 0.6\<rparr>],
          wa_antonyms = [\<lparr>word = ''glad'', confidence = 0.6\<rparr>, \<lparr>word = ''merry'', confidence = 0.6\<rparr>],
          wa_contexts = [],
          wa_confidence =
            calculateOverallConfidence exactArith
              [\<lparr>word = ''glad'', confidence = 0.6\<rparr>, \<lparr>word = ''merry'', confidence = 0.6\<rparr>]
              [\<lparr>word = ''glad'', confidence = 0.6\<rparr>, \<lparr>word = ''merry'', confidence = 0.6\<rparr>]\<rparr>"
proof -
  let ?svc = "\<lparr>languageModel = ''qwen2.5:14b'', embeddingModel = ''nomic-embed-text''\<rparr>"
  let ?env = "\<lparr>generate = (\<lambda>m p. Some ''glad, merry''),
           embeddings = (\<lambda>m t. None), parseJsonWords = (\<lambda>r. None),
           parseJsonContexts = (\<lambda>r. None)\<rparr>"
  let ?c = "\<lparr>entries = [], defaultTTL = 3600\<rparr>"
  have h: "cachedAnalysis ?c (analysisCacheKey ''happy'' None) = None"
    by code_simp
  have r1: "fst (findSynonyms ?svc ?env ?c ''happy'' None) =
      Inr [\<lparr>word = ''glad'', confidence = 0.6\<rparr>, \<lparr>word = ''merry'', confidence = 0.6\<rparr>]"
    by code_simp
  have r2: "fst (findAntonyms ?svc ?env ?c ''happy'' None) =
      Inr [\<lparr>word = ''glad'', confidence = 0.6\<rparr>, \<lparr>word = ''merry'', confidence = 0.6\<rparr>]"
    by code_simp
  have r3: "fst (getDefinition ?svc ?env ?c ''happy'' None) = Inr ''glad, merry''"
    by code_simp
  have t: "truthy None = None"
    by (simp add: truthy_def)
  from C1_analysis_needs_every_suboperation [of ?c "''happy''" None ?svc ?env exactArith] h
  show ?thesis
    by (simp only: r1 r2 r3 t Let_def option.case sum.sel sum.disc simp_thms if_False)
qed

section \<open>The cached ranking: its key and its time-to-live\<close>

lemma cache_get_cache_set_same: "cache_get (cache_set c k v ttl) k = Some v"
  by (simp add: cache_get_def cache_set_def update_conv')

lemma entryTTL_cache_set_same:
  "entryTTL (cache_set c k v ttl) k = Some (if ttl = 0 then defaultTTL c else ttl)"
  by (simp add: entryTTL_def cache_set_def update_conv')

lemma findSimilarWords_miss:
  "cachedSearch c (searchCacheKey (numberToString E) q limit threshold options) = None \<Longrightarrow>
   es_generateEmbedding E c q options = (Inr qe, c1) \<Longrightarrow>
   findSimilarEmbeddings (arithmetic E) (db E) (er_embedding qe) (er_model qe) limit threshold = Inr rs \<Longrightarrow>
   findSimilarWords E c q limit threshold options =
     (Inr rs, cache_set c1 (searchCacheKey (numberToString E) q limit threshold options)
                (CSearch rs) 1800)"
  by (simp add: findSimilarWords_def Let_def)

lemma basic_findSimilarWords_miss:
  "cachedSearch c (basicSearchCacheKey (numberToString E) q limit threshold) = None \<Longrightarrow>
   ollama_generateEmbedding (ollama E) (client E) c q = (Inr qe, c1) \<Longrightarrow>
   findSimilarEmbeddings (arithmetic E) (db E) (er_embedding qe) (er_model qe) limit threshold = Inr rs \<Longrightarrow>
   basic_findSimilarWords E c q limit threshold =
     (Inr rs, cache_set c1 (basicSearchCacheKey (numberToString E) q limit threshold)
                (CSearch rs) 1800)"
  by (simp add: basic_findSimilarWords_def Let_def)

lemma ollama_generateEmbedding_ttl:
  "cachedEmbedding c (embeddingCacheKey (embeddingModel svc) text) = None \<Longrightarrow>
   embeddings env (embeddingModel svc) text = Some v \<Longrightarrow>
   entryTTL (snd (ollama_generateEmbedding svc env c text))
     (embeddingCacheKey (embeddingModel svc) text) = Some 3600"
  by (simp add: ollama_generateEmbedding_def Let_def entryTTL_cache_set_same)

lemma findSimilarEmbeddings_paths:
  "findSimilarEmbeddings ar d v m limit threshold =
     (case queryRaw d v m threshold limit of
        Some rows \<Rightarrow> Inr rows
      | None \<Rightarrow> fallbackSimilaritySearch ar d (map Finite v) m limit (Finite threshold))"
  by (simp add: findSimilarEmbeddings_def map_idI split: option.splits)

lemma searchCacheKey_providers:
  "searchCacheKey toStr q limit threshold \<lparr>provider = ''ollama'', eo_model = m1\<rparr> \<noteq>
   searchCacheKey toStr q limit threshold \<lparr>provider = ''word2vec'', eo_model = m2\<rparr>"
  by (simp add: searchCacheKey_def)

lemma searchCacheKey_models:
  "or_else m1 ''default'' \<noteq> or_else m2 ''default'' \<Longrightarrow>
   searchCacheKey toStr q limit threshold \<lparr>provider = p, eo_model = m1\<rparr> \<noteq>
   searchCacheKey toStr q limit threshold \<lparr>provider = p, eo_model = m2\<rparr>"
  by (simp add: searchCacheKey_def)

lemmas demo_simps = demo_deps_def empty_cache_def basic_findSimilarWords_def findSimilarWords_def
  ollama_generateEmbedding_def es_generateEmbedding_def cachedSearch_def cachedEmbedding_def
  cache_get_def cache_set_def entryTTL_def keys_def findSimilarEmbeddings_def
  basicSearchCacheKey_def searchCacheKey_def embeddingCacheKey_def or_else_def
  fallbackSimilaritySearch_def findMany_def calculateCosineSimilarity_def sortBy_def slice0_def
  exactArith_def exact_sub_def isZero_def Let_def

text \<open>
  Claim C5 as stated: the key of the cached ranking includes the provider and the model.
  In the service of \<open>services/embedding.ts\<close> the key is built from the query text, the
  limit and the threshold alone: run with two different embedding models, the service
  caches the ranking under one and the same key.
\<close>

theorem C5_counterexample:
  "keys (snd (basic_findSimilarWords (demo_deps ''model-a'') empty_cache ''happy'' 10 (7 / 10))) =
     [''embedding:model-a:happy'', ''semantic_search:happy:10:0.7''] \<and>
   keys (snd (basic_findSimilarWords (demo_deps ''model-b'') empty_cache ''happy'' 10 (7 / 10))) =
     [''embedding:model-b:happy'', ''semantic_search:happy:10:0.7'']"
  by (simp add: demo_simps)

text \<open>
  Claim C5, amended: in the embedding service that takes a provider per call, both
  execution paths (the native query and the brute-force fallback) cache the ranked
  result list under the key
  \<open>semantic_search:<query text>:<limit>:<threshold>:<provider>:<model or default>\<close>, which
  differs for the two providers and for different models; in the service of
  \<open>services/embedding.ts\<close> both paths cache it under
  \<open>semantic_search:<query text>:<limit>:<threshold>\<close>, which names neither provider nor
  model.  In both services the cached list is written with a time-to-live of 1800
  seconds, strictly shorter than the 3600 seconds of an embedding cached by the
  language-model service.
\<close>

theorem C5_search_results_cached:
  "(cachedSearch c (searchCacheKey (numberToString E) q limit threshold options) = None \<and>
    es_generateEmbedding E c q options = (Inr qe, c1) \<and>
    findSimilarEmbeddings (arithmetic E) (db E) (er_embedding qe) (er_model qe) limit threshold = Inr rs \<longrightarrow>
      fst (findSimilarWords E c q limit threshold options) = Inr rs \<and>
      cache_get (snd (findSimilarWords E c q limit threshold options))
        (searchCacheKey (numberToString E) q limit threshold options) = Some (CSearch rs) \<and>
      entryTTL (snd (findSimilarWords E c q limit threshold options))
        (searchCacheKey (numberToString E) q limit threshold options) = Some 1800) \<and>
   findSimilarEmbeddings ar d v m limit threshold =
     (case queryRaw d v m threshold limit of
        Some rows \<Rightarrow> Inr rows
      | None \<Rightarrow> fallbackSimilaritySearch ar d (map Finite v) m limit (Finite threshold)) \<and>
   searchCacheKey toStr q limit threshold options =
     ''semantic_search:'' @ q @ '':'' @ toStr (of_int limit) @ '':'' @ toStr threshold
       @ '':'' @ provider options @ '':'' @ or_else (eo_model options) ''default'' \<and>
   searchCacheKey toStr q limit threshold \<lparr>provider = ''ollama'', eo_model = m1\<rparr> \<noteq>
     searchCacheKey toStr q limit threshold \<lparr>provider = ''word2vec'', eo_model = m2\<rparr> \<and>
   (or_else m1 ''default'' \<noteq> or_else m2 ''default'' \<longrightarrow>
      searchCacheKey toStr q limit threshold \<lparr>provider = p, eo_model = m1\<rparr> \<noteq>
      searchCacheKey toStr q limit threshold \<lparr>provider = p, eo_model = m2\<rparr>) \<and>
   (cachedEmbedding c (embeddingCacheKey (embeddingModel svc) text) = None \<and>
    embeddings env (embeddingModel svc) text = Some vec \<longrightarrow>
      entryTTL (snd (ollama_generateEmbedding svc env c text))
        (embeddingCacheKey (embeddingModel svc) text) = Some 3600) \<and>
   (cachedSearch c (basicSearchCacheKey (numberToString E) q limit threshold) = None \<and>
    ollama_generateEmbedding (ollama E) (client E) c q = (Inr qe, c1) \<and>
    findSimilarEmbeddings (arithmetic E) (db E) (er_embedding qe) (er_model qe) limit threshold = Inr rs \<longrightarrow>
      fst (basic_findSimilarWords E c q limit threshold) = Inr rs \<and>
      cache_get (snd (basic_findSimilarWords E c q limit threshold))
        (basicSearchCacheKey (numberToString E) q limit threshold) = Some (CSearch rs) \<and>
      entryTTL (snd (basic_findSimilarWords E c q limit threshold))
        (basicSearchCacheKey (numberToString E) q limit threshold) = Some 1800) \<and>
   basicSearchCacheKey toStr q limit threshold =
     ''semantic_search:'' @ q @ '':'' @ toStr (of_int limit) @ '':'' @ toStr threshold \<and>
   (1800 :: nat) < 3600"
proof -
  have a: "cachedSearch c (searchCacheKey (numberToString E) q limit threshold options) = None \<and>
    es_generateEmbedding E c q options = (Inr qe, c1) \<and>
    findSimilarEmbeddings (arithmetic E) (db E) (er_embedding qe) (er_model qe) limit threshold = Inr rs \<longrightarrow>
      fst (findSimilarWords E c q limit threshold options) = Inr rs \<and>
      cache_get (snd (findSimilarWords E c q limit threshold options))
        (searchCacheKey (numberToString E) q limit threshold options) = Some (CSearch rs) \<and>
      entryTTL (snd (findSimilarWords E c q limit threshold options))
        (searchCacheKey (numberToString E) q limit threshold options) = Some 1800"
    by (simp add: findSimilarWords_miss cache_get_cache_set_same entryTTL_cache_set_same)
  have b: "cachedSearch c (basicSearchCacheKey (numberToString E) q limit threshold) = None \<and>
    ollama_generateEmbedding (ollama E) (client E) c q = (Inr qe, c1) \<and>
    findSimilarEmbeddings (arithmetic E) (db E) (er_embedding qe) (er_model qe) limit threshold = Inr rs \<longrightarrow>
      fst (basic_findSimilarWords E c q limit threshold) = Inr rs \<and>
      cache_get (snd (basic_findSimilarWords E c q limit threshold))
        (basicSearchCacheKey (numberToString E) q limit threshold) = Some (CSearch rs) \<and>
      entryTTL (snd (basic_findSimilarWords E c q limit threshold))
        (basicSearchCacheKey (numberToString E) q limit threshold) = Some 1800"
    by (simp add: basic_findSimilarWords_miss cache_get_cache_set_same entryTTL_cache_set_same)
  have k: "searchCacheKey toStr q limit threshold options =
     ''semantic_search:'' @ q @ '':'' @ toStr (of_int limit) @ '':'' @ toStr threshold
       @ '':'' @ provider options @ '':'' @ or_else (eo_model options) ''default''"
    by (simp add: searchCacheKey_def)
  have kb: "basicSearchCacheKey toStr q limit threshold =
     ''semantic_search:'' @ q @ '':'' @ toStr (of_int limit) @ '':'' @ toStr threshold"
    by (simp add: basicSearchCacheKey_def)
  have t: "cachedEmbedding c (embeddingCacheKey (embeddingModel svc) text) = None \<and>
    embeddings env (embeddingModel svc) text = Some vec \<longrightarrow>
      entryTTL (snd (ollama_generateEmbedding svc env c text))
        (embeddingCacheKey (embeddingModel svc) text) = Some 3600"
    by (simp add: ollama_generateEmbedding_ttl)
  have n: "(1800 :: nat) < 3600" by simp
  from a b k kb t n searchCacheKey_providers [of toStr q limit threshold m1 m2]
    searchCacheKey_models [of m1 m2 toStr q limit threshold p]
    findSimilarEmbeddings_paths [of ar d v m limit threshold]
  show ?thesis by blast
qed

theorem C5_search_results_cached_witness:
  "fst (findSimilarWords (demo_deps ''model-a'') empty_cache ''happy'' 10 (7 / 10)
          \<lparr>provider = ''ollama'', eo_model = None\<rparr>) =
     Inr [\<lparr>sr_word = ''glad'', similarity = Finite 1, sr_definition = None, sr_partOfSpeech = None\<rparr>] \<and>
   entryTTL (snd (findSimilarWords (demo_deps ''model-a'') empty_cache ''happy'' 10 (7 / 10)
                  \<lparr>provider = ''ollama'', eo_model = None\<rparr>))
     ''semantic_search:happy:10:0.7:ollama:default'' = Some 1800 \<and>
   entryTTL (snd (ollama_generateEmbedding (ollama (demo_deps ''model-a''))
                  (client (demo_deps ''model-a'')) empty_cache ''happy''))
     ''embedding:model-a:happy'' = Some 3600 \<and>
   searchCacheKey (numberToString (demo_deps ''model-a'')) ''happy'' 10 (7 / 10)
     \<lparr>provider = ''ollama'', eo_model = Some ''nomic''\<rparr> \<noteq>
   searchCacheKey (numberToString (demo_deps ''model-a'')) ''happy'' 10 (7 / 10)
     \<lparr>provider = ''ollama'', eo_model = None\<rparr> \<and>
   entryTTL (snd (basic_findSimilarWords (demo_deps ''model-a'') empty_cache ''happy'' 10 (7 / 10)))
     ''semantic_search:happy:10:0.7'' = Some 1800"
proof -
  let ?E = "demo_deps ''model-a''"
  let ?qe = "\<lparr>er_model = ''model-a'', er_embedding = [1, 0], er_dimension = 2\<rparr>"
  let ?c1 = "cache_set empty_cache ''embedding:model-a:happy'' (CEmbedding ?qe) 3600"
  let ?rs = "[\<lparr>sr_word = ''glad'', similarity = Finite 1, sr_definition = None, sr_partOfSpeech = None\<rparr>]"
  have g: "es_generateEmbedding ?E empty_cache ''happy'' \<lparr>provider = ''ollama'', eo_model = None\<rparr>
           = (Inr ?qe, ?c1)"
    by (simp add: demo_simps)
  have g': "ollama_generateEmbedding (ollama ?E) (client ?E) empty_cache ''happy'' = (Inr ?qe, ?c1)"
    by (simp add: demo_simps)
  have f: "findSimilarEmbeddings (arithmetic ?E) (db ?E) (er_embedding ?qe) (er_model ?qe) 10 (7 / 10) = Inr ?rs"
    by (simp add: demo_simps)
  have s: "cachedSearch empty_cache k = None" for k
    by (simp add: demo_simps)
  have e: "cachedEmbedding empty_cache k = None" for k
    by (simp add: demo_simps)
  have em: "embeddings (client ?E) (embeddingModel (ollama ?E)) ''happy'' = Some [1, 0]"
    by (simp add: demo_deps_def)
  have m: "or_else (Some ''nomic'') ''default'' \<noteq> or_else None ''default''"
    by (simp add: or_else_def)
  have k1: "searchCacheKey (numberToString ?E) ''happy'' 10 (7 / 10)
              \<lparr>provider = ''ollama'', eo_model = None\<rparr> = ''semantic_search:happy:10:0.7:ollama:default''"
    by (simp add: demo_simps)
  have k2: "basicSearchCacheKey (numberToString ?E) ''happy'' 10 (7 / 10) = ''semantic_search:happy:10:0.7''"
    by (simp add: demo_simps)
  have k3: "embeddingCacheKey (embeddingModel (ollama ?E)) ''happy'' = ''embedding:model-a:happy''"
    by (simp add: demo_simps)
  note T = C5_search_results_cached [of empty_cache ?E "''happy''" 10 "7 / 10"
      "\<lparr>provider = ''ollama'', eo_model = None\<rparr>" ?qe ?c1 ?rs
      exactArith "db ?E" "[1, 0]" "''model-a''" "numberToString ?E" "Some ''nomic''" None "''ollama''"
      "ollama ?E" "''happy''" "client ?E" "[1, 0]"]
  note T1 = T [THEN conjunct1]
  note T5 = T [THEN conjunct2, THEN conjunct2, THEN conjunct2, THEN conjunct2, THEN conjunct1]
  note T6 = T [THEN conjunct2, THEN conjunct2, THEN conjunct2, THEN conjunct2, THEN conjunct2,
      THEN conjunct1]
  note T7 = T [THEN conjunct2, THEN conjunct2, THEN conjunct2, THEN conjunct2, THEN conjunct2,
      THEN conjunct2, THEN conjunct1]
  have r1: "fst (findSimilarWords ?E empty_cache ''happy'' 10 (7 / 10)
                   \<lparr>provider = ''ollama'', eo_model = None\<rparr>) = Inr ?rs \<and>
            entryTTL (snd (findSimilarWords ?E empty_cache ''happy'' 10 (7 / 10)
                   \<lparr>provider = ''ollama'', eo_model = None\<rparr>))
              ''semantic_search:happy:10:0.7:ollama:default'' = Some 1800"
    using T1 [THEN mp, OF conjI [OF s conjI [OF g f]]] unfolding k1 by blast
  have r5: "searchCacheKey (numberToString ?E) ''happy'' 10 (7 / 10)
              \<lparr>provider = ''ollama'', eo_model = Some ''nomic''\<rparr> \<noteq>
            searchCacheKey (numberToString ?E) ''happy'' 10 (7 / 10)
              \<lparr>provider = ''ollama'', eo_model = None\<rparr>"
    using T5 [THEN mp, OF m] .
  have r6: "entryTTL (snd (ollama_generateEmbedding (ollama ?E) (client ?E) empty_cache ''happy''))
              ''embedding:model-a:happy'' = Some 3600"
    using T6 [THEN mp, OF conjI [OF e em]] unfolding k3 .
  have r7: "entryTTL (snd (basic_findSimilarWords ?E empty_cache ''happy'' 10 (7 / 10)))
              ''semantic_search:happy:10:0.7'' = Some 1800"
    using T7 [THEN mp, OF conjI [OF s conjI [OF g' f]]] unfolding k2 by blast
  from r1 r5 r6 r7 show ?thesis by blast
qed

section \<open>Equal lengths never raise\<close>

text \<open>
  For vectors of one length the similarity function returns a number, in every
  arithmetic: only vectors of different lengths raise.  Which number it returns is a
  matter of the rounding of the runtime, which is a parameter here.  In binary64 the
  square roots, the product of the norms and the quotient are each rounded: for the
  vector \<open>[1, 1]\<close> against itself the norms are \<open>1.4142135623730951\<close>, their product
  is \<open>2.0000000000000004\<close>, and the similarity is \<open>0.9999999999999998\<close>.  That the
  self-similarity is exactly 1 (claim C4) is a fact of the real numbers and not of the
  doubles, and no theorem of this development settles it for the service.
\<close>

lemma calculateCosineSimilarity_returns:
  "length a = length b \<Longrightarrow> \<exists>s. calculateCosineSimilarity ar a b = Inr s"
  by (simp add: calculateCosineSimilarity_cosine)

end
